theory Spec2Isabelle
  imports Main "HOL-Library.Sublist"
begin

section \<open>JSON values and JavaScript truthiness\<close>

text \<open>
  Request bodies arrive through \<^verbatim>\<open>express.json()\<close>: a body is a JSON object, a
  finite map from property names to JSON values. Reading a property that the object
  does not have gives \<^verbatim>\<open>undefined\<close>, which \<open>JUndefined\<close> stands for.
\<close>

datatype jval =
    JUndefined
  | JNull
  | JBool bool
  | JNum int
  | JStr string
  | JArr "jval list"
  | JObj "(string \<times> jval) list"

type_synonym jobj = "string \<rightharpoonup> jval"

text \<open>\<^verbatim>\<open>obj.key\<close>\<close>

definition get :: "jobj \<Rightarrow> string \<Rightarrow> jval" where
  "get obj k = (case obj k of None \<Rightarrow> JUndefined | Some v \<Rightarrow> v)"

text \<open>The value of \<^verbatim>\<open>x\<close> in a condition: \<^verbatim>\<open>if (x)\<close>, \<^verbatim>\<open>!x\<close>.\<close>

fun truthy :: "jval \<Rightarrow> bool" where
  "truthy JUndefined = False"
| "truthy JNull = False"
| "truthy (JBool b) = b"
| "truthy (JNum n) = (n \<noteq> 0)"
| "truthy (JStr s) = (s \<noteq> [])"
| "truthy (JArr xs) = True"
| "truthy (JObj kvs) = True"

text \<open>
  A query-string parameter \<^verbatim>\<open>req.query.k\<close> of the form \<^verbatim>\<open>?k=v\<close>: absent
  (\<^verbatim>\<open>undefined\<close>) or a string. The nested and repeated forms of the query-string
  parser (\<^verbatim>\<open>?k[a]=v\<close>, \<^verbatim>\<open>?k=a&k=b\<close>) are outside this model.
\<close>

type_synonym qparam = "string option"

section \<open>Documents, schemas and collections\<close>

text \<open>
  A stored document: the \<^verbatim>\<open>_id\<close> the driver assigned, the values of its schema
  paths, and Mongoose's version key \<^verbatim>\<open>__v\<close>. An id is an ObjectId, written as its
  string of hexadecimal digits. The path parameter \<^verbatim>\<open>req.params.id\<close> of an update
  or delete is the raw segment of the URL, which Mongoose casts to an ObjectId
  (\<open>cast_object_id\<close> below).
\<close>

type_synonym oid = string

record doc =
  doc_id :: oid
  doc_fields :: jobj
  doc_v :: nat

datatype coll = User | Course | Lesson | Quiz | Submission | Enrollment

datatype ptype = TString | TDate | TObjectId coll | TArray ptype

record spath =
  pname :: string
  ptype :: ptype
  required :: bool

type_synonym schema = "spath list"

definition path :: "string \<Rightarrow> ptype \<Rightarrow> bool \<Rightarrow> spath" where
  "path n t r = \<lparr>pname = n, ptype = t, required = r\<rparr>"

text \<open>src/models/Course.js\<close>

definition courseSchema :: schema where
  "courseSchema =
    [path ''title'' TString True,
     path ''description'' TString False,
     path ''instructor'' (TObjectId User) True,
     path ''lessons'' (TArray (TObjectId Lesson)) False]"

text \<open>The second module of src/models/Course.js (models/Lesson.js)\<close>

definition lessonSchema :: schema where
  "lessonSchema =
    [path ''title'' TString True,
     path ''content'' TString False,
     path ''course'' (TObjectId Course) True]"

text \<open>src/models/Quiz.js\<close>

definition quizSchema :: schema where
  "quizSchema =
    [path ''question'' TString True,
     path ''options'' (TArray TString) False,
     path ''answer'' TString True,
     path ''lesson'' (TObjectId Lesson) True]"

text \<open>The second module of src/models/Quiz.js (models/Submission.js)\<close>

definition submissionSchema :: schema where
  "submissionSchema =
    [path ''student'' (TObjectId User) True,
     path ''quiz'' (TObjectId Quiz) True,
     path ''answer'' TString True]"

text \<open>
  Modelled from the spec: models/User.js is not among the sources. The data model of
  the specification (section 3) gives a User the fields name, email and role, all
  three required, and states that no entity is validated beyond the presence of its
  required fields and that type and format correctness is not enforced: the two role
  values it lists (student, instructor) are not checked on save. The uniqueness of
  email is enforced by the route only, not by the store.
\<close>

definition userSchema :: schema where
  "userSchema =
    [path ''name'' TString True,
     path ''email'' TString True,
     path ''role'' TString True]"

text \<open>
  Modelled from the spec: models/Enrollment.js is not among the sources. The data
  model gives an Enrollment the fields student (User ref) and course (Course ref),
  both required, and enrollmentDate (timestamp).
\<close>

definition enrollmentSchema :: schema where
  "enrollmentSchema =
    [path ''student'' (TObjectId User) True,
     path ''course'' (TObjectId Course) True,
     path ''enrollmentDate'' TDate False]"

fun schema_of :: "coll \<Rightarrow> schema" where
  "schema_of User = userSchema"
| "schema_of Course = courseSchema"
| "schema_of Lesson = lessonSchema"
| "schema_of Quiz = quizSchema"
| "schema_of Submission = submissionSchema"
| "schema_of Enrollment = enrollmentSchema"

text \<open>The database: one collection per model, each in insertion order.\<close>

record db =
  users :: "doc list"
  courses :: "doc list"
  lessons :: "doc list"
  quizzes :: "doc list"
  submissions :: "doc list"
  enrollments :: "doc list"

fun collection :: "db \<Rightarrow> coll \<Rightarrow> doc list" where
  "collection d User = users d"
| "collection d Course = courses d"
| "collection d Lesson = lessons d"
| "collection d Quiz = quizzes d"
| "collection d Submission = submissions d"
| "collection d Enrollment = enrollments d"

section \<open>The Mongoose operations the routes call\<close>

text \<open>
  Mongoose is a library, not code of the repository. The model below keeps what the
  routes rely on. For \<^verbatim>\<open>new Model(obj)\<close> and \<^verbatim>\<open>save()\<close>: strict mode (a property
  that the schema does not declare is dropped), the empty-array default of array
  paths and the \<^verbatim>\<open>required\<close> validator; the values are stored as they were
  sent. For \<^verbatim>\<open>find\<close> and \<^verbatim>\<open>findOne\<close>: conditions by equality and by
  \<^verbatim>\<open>$regex\<close>, and \<^verbatim>\<open>populate\<close>. For \<^verbatim>\<open>findByIdAndUpdate\<close> and
  \<^verbatim>\<open>findByIdAndDelete\<close>: the cast of the id and of the supplied values to the
  types of their paths, with the CastError that is thrown when a cast fails, strict
  mode, and the update as a \<^verbatim>\<open>$set\<close> of the supplied paths (update validators are
  off by default). Where the behaviour of the library is not modelled (update
  operators, dotted paths, conversions between types), an operation has the
  outcome \<open>Unmodelled\<close> and nothing is claimed for it. Failures of the connection
  are outside the model.
\<close>

text \<open>An error names the paths that failed, in schema order.\<close>

datatype error = ValidationError "string list" | CastError "string list"

text \<open>
  What an asynchronous call comes to: it returns a value, it throws (its promise is
  rejected), or it is outside the model.
\<close>

datatype 'a outcome = Returns 'a | Throws error | Unmodelled

definition path_names :: "schema \<Rightarrow> string list" where
  "path_names sch = map pname sch"

definition default_of :: "spath \<Rightarrow> jval option" where
  "default_of p = (case ptype p of TArray t \<Rightarrow> Some (JArr []) | _ \<Rightarrow> None)"

definition defaults :: "schema \<Rightarrow> jobj" where
  "defaults sch = map_of (List.map_filter (\<lambda>p. map_option (Pair (pname p)) (default_of p)) sch)"

text \<open>The properties of an object that are set: \<^verbatim>\<open>undefined\<close> counts as absent.\<close>

definition defined_props :: "jobj \<Rightarrow> jobj" where
  "defined_props obj = (\<lambda>k. case obj k of Some JUndefined \<Rightarrow> None | v \<Rightarrow> v)"

text \<open>
  \<^verbatim>\<open>new Model(obj)\<close>, with the id \<open>nid\<close> that the driver generates. The values
  of the declared paths are kept as they were sent: the conversions and the cast
  errors of a save are not modelled, so a document with a value of another type than
  its path's is stored as it is.
\<close>

definition new_doc :: "schema \<Rightarrow> oid \<Rightarrow> jobj \<Rightarrow> doc" where
  "new_doc sch nid obj =
    \<lparr>doc_id = nid,
     doc_fields = defaults sch ++ (defined_props obj |` set (path_names sch)),
     doc_v = 0\<rparr>"

text \<open>
  The \<^verbatim>\<open>required\<close> validator: the value is set, not null and, for a string, not
  empty.
\<close>

fun required_ok :: "jval option \<Rightarrow> bool" where
  "required_ok None = False"
| "required_ok (Some JUndefined) = False"
| "required_ok (Some JNull) = False"
| "required_ok (Some (JStr s)) = (s \<noteq> [])"
| "required_ok (Some v) = True"

definition path_ok :: "spath \<Rightarrow> jobj \<Rightarrow> bool" where
  "path_ok p fs = (if required p then required_ok (fs (pname p)) else True)"

text \<open>The paths that fail validation, in schema order.\<close>

definition validate :: "schema \<Rightarrow> doc \<Rightarrow> string list" where
  "validate sch d = map pname (filter (\<lambda>p. \<not> path_ok p (doc_fields d)) sch)"

text \<open>\<^verbatim>\<open>await d.save()\<close> of a new document: validates, then inserts.\<close>

definition save :: "schema \<Rightarrow> doc list \<Rightarrow> doc \<Rightarrow> error + (doc list \<times> doc)" where
  "save sch c d =
    (case validate sch d of
       [] \<Rightarrow> Inr (c @ [d], d)
     | e # es \<Rightarrow> Inl (ValidationError (e # es)))"

subsection \<open>Queries\<close>

text \<open>
  The fragment of regular expressions that is modelled: a pattern is a sequence of
  literal characters and dots. A pattern with any other metacharacter is outside the
  model (\<open>parse_pattern\<close> gives \<open>None\<close>).
\<close>

datatype atom = Lit char | AnyChar

definition is_meta :: "char \<Rightarrow> bool" where
  "is_meta c = (c \<in> set (CHR 0x5C # ''^$.|?*+()[]{}''))"

fun parse_pattern :: "string \<Rightarrow> atom list option" where
  "parse_pattern [] = Some []"
| "parse_pattern (c # cs) =
    (case parse_pattern cs of
       None \<Rightarrow> None
     | Some as \<Rightarrow>
         if c = CHR ''.'' then Some (AnyChar # as)
         else if is_meta c then None
         else Some (Lit c # as))"

text \<open>The lower-case form of an ASCII letter; any other character is unchanged.\<close>

definition to_lower :: "char \<Rightarrow> char" where
  "to_lower c =
    (case map_of (zip ''ABCDEFGHIJKLMNOPQRSTUVWXYZ'' ''abcdefghijklmnopqrstuvwxyz'') c of
       None \<Rightarrow> c
     | Some l \<Rightarrow> l)"

text \<open>One atom against one character; \<open>ci\<close> is the option \<^verbatim>\<open>i\<close>.\<close>

fun atom_ok :: "bool \<Rightarrow> atom \<Rightarrow> char \<Rightarrow> bool" where
  "atom_ok ci (Lit x) c = (if ci then to_lower x = to_lower c else x = c)"
| "atom_ok ci AnyChar c = (c \<noteq> CHR 0x0A)"

text \<open>The pattern matches at the start of the subject.\<close>

fun match_here :: "bool \<Rightarrow> atom list \<Rightarrow> string \<Rightarrow> bool" where
  "match_here ci [] s = True"
| "match_here ci (a # as) [] = False"
| "match_here ci (a # as) (c # cs) = (atom_ok ci a c \<and> match_here ci as cs)"

text \<open>The pattern matches somewhere in the subject (an unanchored search).\<close>

fun regex_search :: "bool \<Rightarrow> atom list \<Rightarrow> string \<Rightarrow> bool" where
  "regex_search ci as [] = match_here ci as []"
| "regex_search ci as (c # cs) = (match_here ci as (c # cs) \<or> regex_search ci as cs)"

text \<open>
  A condition on one path: \<^verbatim>\<open>{k: v}\<close> or \<^verbatim>\<open>{k: {$regex: p, $options: o}}\<close>
  with \<open>p\<close> parsed. A query is a list of conditions, all of which must hold.
\<close>

datatype cond = CEq jval | CRegex "atom list" string

type_synonym query = "(string \<times> cond) list"

fun cond_holds :: "cond \<Rightarrow> jval option \<Rightarrow> bool" where
  "cond_holds (CEq v) x = (x = Some v)"
| "cond_holds (CRegex as opts) (Some (JStr s)) = regex_search (CHR ''i'' \<in> set opts) as s"
| "cond_holds (CRegex as opts) x = False"

definition matches :: "query \<Rightarrow> doc \<Rightarrow> bool" where
  "matches q d = list_all (\<lambda>(k, c). cond_holds c (doc_fields d k)) q"

text \<open>\<^verbatim>\<open>Model.find(query)\<close> and \<^verbatim>\<open>Model.findOne(query)\<close>\<close>

definition find_docs :: "doc list \<Rightarrow> query \<Rightarrow> doc list" where
  "find_docs c q = filter (matches q) c"

definition find_one :: "doc list \<Rightarrow> query \<Rightarrow> doc option" where
  "find_one c q = List.find (matches q) c"

subsection \<open>Documents by id\<close>

text \<open>\<^verbatim>\<open>Model.findById(i)\<close>: the document with that \<^verbatim>\<open>_id\<close>, or null.\<close>

definition find_by_id :: "doc list \<Rightarrow> oid \<Rightarrow> doc option" where
  "find_by_id c i = List.find (\<lambda>d. doc_id d = i) c"

subsection \<open>Casting\<close>

text \<open>
  The result of casting a value to the type of a path: the cast value, a failure
  (Mongoose raises a CastError), or a conversion that is not modelled.
\<close>

datatype 'a cast = Cast 'a | CastFails | CastUnmodelled

definition is_hex :: "char \<Rightarrow> bool" where
  "is_hex c = (c \<in> set ''0123456789abcdefABCDEF'')"

text \<open>A well-formed id: 24 hexadecimal digits.\<close>

definition well_formed_id :: "string \<Rightarrow> bool" where
  "well_formed_id s = (length s = 24 \<and> list_all is_hex s)"

text \<open>
  The cast of a string to an ObjectId. A string of 24 hexadecimal digits is the id
  with these digits (an ObjectId prints its digits in lower case). A string of 12
  characters is accepted by some versions of the driver and refused by others: not
  modelled. Any other string fails.
\<close>

definition cast_object_id :: "string \<Rightarrow> oid cast" where
  "cast_object_id s =
    (if well_formed_id s then Cast (map to_lower s)
     else if length s = 12 then CastUnmodelled
     else CastFails)"

text \<open>
  The cast of a value to a String, ObjectId or Date path. On a String path a string
  and null are kept and an array or an object fails; a number or a boolean would be
  converted to its string form, which is not modelled. On an ObjectId path a string
  is cast as above and null is kept. Everything else is not modelled.
\<close>

fun cast_scalar :: "ptype \<Rightarrow> jval \<Rightarrow> jval cast" where
  "cast_scalar TString (JStr s) = Cast (JStr s)"
| "cast_scalar TString JNull = Cast JNull"
| "cast_scalar TString (JArr xs) = CastFails"
| "cast_scalar TString (JObj kvs) = CastFails"
| "cast_scalar (TObjectId c) (JStr s) =
    (case cast_object_id s of
       Cast i \<Rightarrow> Cast (JStr i)
     | CastFails \<Rightarrow> CastFails
     | CastUnmodelled \<Rightarrow> CastUnmodelled)"
| "cast_scalar (TObjectId c) JNull = Cast JNull"
| "cast_scalar TDate JNull = Cast JNull"
| "cast_scalar t v = CastUnmodelled"

text \<open>
  The elements of an array, cast one by one: one element that fails makes the cast of
  the array fail; a null element is not modelled.
\<close>

fun cast_list :: "ptype \<Rightarrow> jval list \<Rightarrow> jval list cast" where
  "cast_list t [] = Cast []"
| "cast_list t (v # vs) =
    (case (if v = JNull then CastUnmodelled else cast_scalar t v, cast_list t vs) of
       (CastFails, r) \<Rightarrow> CastFails
     | (r, CastFails) \<Rightarrow> CastFails
     | (Cast x, Cast xs) \<Rightarrow> Cast (x # xs)
     | (r, r') \<Rightarrow> CastUnmodelled)"

fun cast_value :: "ptype \<Rightarrow> jval \<Rightarrow> jval cast" where
  "cast_value (TArray t) (JArr vs) =
    (case cast_list t vs of
       Cast xs \<Rightarrow> Cast (JArr xs)
     | CastFails \<Rightarrow> CastFails
     | CastUnmodelled \<Rightarrow> CastUnmodelled)"
| "cast_value (TArray t) v = CastUnmodelled"
| "cast_value t v = cast_scalar t v"

definition path_type :: "schema \<Rightarrow> string \<Rightarrow> ptype option" where
  "path_type sch k = map_option ptype (List.find (\<lambda>p. pname p = k) sch)"

text \<open>The cast of the value that an object supplies for a declared path, if it supplies one.\<close>

definition cast_path :: "schema \<Rightarrow> jobj \<Rightarrow> string \<Rightarrow> jval cast option" where
  "cast_path sch upd k =
    (case (path_type sch k, defined_props upd k) of
       (Some t, Some v) \<Rightarrow> Some (cast_value t v)
     | _ \<Rightarrow> None)"

text \<open>
  A key that names a top-level field: not an update operator (\<^verbatim>\<open>$set\<close>,
  \<^verbatim>\<open>$unset\<close>, ...), not a dotted path, and neither \<^verbatim>\<open>_id\<close> nor \<^verbatim>\<open>__v\<close>.
\<close>

definition plain_key :: "string \<Rightarrow> bool" where
  "plain_key k =
    ((case k of [] \<Rightarrow> False | c # cs \<Rightarrow> c \<noteq> CHR ''$'') \<and> CHR ''.'' \<notin> set k \<and>
     k \<noteq> ''_id'' \<and> k \<noteq> ''__v'')"

text \<open>The fields that the update sets: the cast values of the declared paths (strict mode).\<close>

definition cast_set :: "schema \<Rightarrow> jobj \<Rightarrow> jobj" where
  "cast_set sch upd =
    (\<lambda>k. case cast_path sch upd k of Some (Cast v) \<Rightarrow> Some v | _ \<Rightarrow> None)"

text \<open>
  The cast of the update \<^verbatim>\<open>req.body\<close>: a CastError when the value of a declared
  path fails its cast; otherwise not modelled when a key is not a plain key or a
  conversion is not modelled; otherwise the fields to set.
\<close>

definition cast_update :: "schema \<Rightarrow> jobj \<Rightarrow> jobj outcome" where
  "cast_update sch upd =
    (case filter (\<lambda>k. cast_path sch upd k = Some CastFails) (path_names sch) of
       e # es \<Rightarrow> Throws (CastError (e # es))
     | [] \<Rightarrow>
         if (\<exists>k \<in> dom upd. \<not> plain_key k) \<or>
            (\<exists>k \<in> set (path_names sch). cast_path sch upd k = Some CastUnmodelled)
         then Unmodelled
         else Returns (cast_set sch upd))"

text \<open>The update \<^verbatim>\<open>{$set: u}\<close> on one document.\<close>

definition apply_set :: "jobj \<Rightarrow> doc \<Rightarrow> doc" where
  "apply_set u d = d\<lparr>doc_fields := doc_fields d ++ u\<rparr>"

fun update_first :: "oid \<Rightarrow> (doc \<Rightarrow> doc) \<Rightarrow> doc list \<Rightarrow> doc list" where
  "update_first i f [] = []"
| "update_first i f (d # ds) =
    (if doc_id d = i then f d # ds else d # update_first i f ds)"

fun remove_first :: "oid \<Rightarrow> doc list \<Rightarrow> doc list" where
  "remove_first i [] = []"
| "remove_first i (d # ds) = (if doc_id d = i then ds else d # remove_first i ds)"

text \<open>
  \<^verbatim>\<open>Model.findByIdAndUpdate(id, upd, { new: n })\<close>: the id is cast, then the
  update; either cast may throw. Otherwise the result is the collection afterwards
  and the document found (after the update when \<open>n\<close>, before it otherwise) or
  null.
\<close>

definition find_by_id_and_update ::
  "schema \<Rightarrow> doc list \<Rightarrow> string \<Rightarrow> jobj \<Rightarrow> bool \<Rightarrow> (doc list \<times> doc option) outcome" where
  "find_by_id_and_update sch c rawid upd n =
    (case cast_object_id rawid of
       CastFails \<Rightarrow> Throws (CastError [''_id''])
     | CastUnmodelled \<Rightarrow> Unmodelled
     | Cast i \<Rightarrow>
         (case cast_update sch upd of
            Throws err \<Rightarrow> Throws err
          | Unmodelled \<Rightarrow> Unmodelled
          | Returns u \<Rightarrow>
              (case find_by_id c i of
                 None \<Rightarrow> Returns (c, None)
               | Some d \<Rightarrow>
                   Returns (update_first i (apply_set u) c,
                            Some (if n then apply_set u d else d)))))"

text \<open>
  \<^verbatim>\<open>Model.findByIdAndDelete(id)\<close>: the id is cast, which may throw; otherwise the
  result is the collection afterwards and the document removed or null.
\<close>

definition find_by_id_and_delete :: "doc list \<Rightarrow> string \<Rightarrow> (doc list \<times> doc option) outcome" where
  "find_by_id_and_delete c rawid =
    (case cast_object_id rawid of
       CastFails \<Rightarrow> Throws (CastError [''_id''])
     | CastUnmodelled \<Rightarrow> Unmodelled
     | Cast i \<Rightarrow>
         (case find_by_id c i of
            None \<Rightarrow> Returns (c, None)
          | Some d \<Rightarrow> Returns (remove_first i c, Some d)))"

subsection \<open>Populate\<close>

text \<open>A document as the JSON object that replaces a reference to it.\<close>

definition to_json :: "schema \<Rightarrow> doc \<Rightarrow> jval" where
  "to_json sch d =
    JObj ((''_id'', JStr (doc_id d)) #
          List.map_filter (\<lambda>k. map_option (Pair k) (doc_fields d k)) (path_names sch) @
          [(''__v'', JNum (int (doc_v d)))])"

text \<open>
  \<^verbatim>\<open>.populate(k)\<close>: a reference becomes the referenced document, or null when there
  is none; in an array of references the ones that resolve are kept.
\<close>

fun populate_val :: "db \<Rightarrow> ptype \<Rightarrow> jval \<Rightarrow> jval" where
  "populate_val dbs (TObjectId c) (JStr i) =
    (case find_by_id (collection dbs c) i of
       None \<Rightarrow> JNull
     | Some r \<Rightarrow> to_json (schema_of c) r)"
| "populate_val dbs (TArray (TObjectId c)) (JArr vs) =
    JArr (List.map_filter
      (\<lambda>v. case v of
         JStr i \<Rightarrow> map_option (to_json (schema_of c)) (find_by_id (collection dbs c) i)
       | _ \<Rightarrow> None) vs)"
| "populate_val dbs t v = v"

definition populate :: "db \<Rightarrow> schema \<Rightarrow> string \<Rightarrow> doc \<Rightarrow> doc" where
  "populate dbs sch k d =
    (case (List.find (\<lambda>p. pname p = k) sch, doc_fields d k) of
       (Some p, Some v) \<Rightarrow> d\<lparr>doc_fields := (doc_fields d)(k \<mapsto> populate_val dbs (ptype p) v)\<rparr>
     | _ \<Rightarrow> d)"

section \<open>Responses\<close>

text \<open>
  What a handler sends: \<^verbatim>\<open>res.status(n).json(x)\<close>; \<^verbatim>\<open>res.json(x)\<close> sends with
  the default status 200. The payloads the routes send are a document, a list of
  documents, null, \<^verbatim>\<open>{message}\<close> and \<^verbatim>\<open>{message, error: err.message}\<close>.
\<close>

datatype payload =
    PDoc doc
  | PList "doc list"
  | PNull
  | PMsg string
  | PErr string error

record response =
  status :: nat
  body :: payload

definition status_json :: "nat \<Rightarrow> payload \<Rightarrow> response" where
  "status_json n x = \<lparr>status = n, body = x\<rparr>"

definition json :: "payload \<Rightarrow> response" where
  "json x = status_json 200 x"

text \<open>The payload of a value that is a document or null.\<close>

definition doc_or_null :: "doc option \<Rightarrow> payload" where
  "doc_or_null x = (case x of None \<Rightarrow> PNull | Some d \<Rightarrow> PDoc d)"

text \<open>
  What a handler comes to: \<open>Returns\<close> with the database afterwards and the
  response it sent; \<open>Throws\<close> when an awaited call throws outside any
  \<^verbatim>\<open>try\<close>, so that the handler's promise is rejected and the handler sends
  nothing; \<open>Unmodelled\<close> when a call it makes is outside the model. The handlers
  that cannot throw in the model are given as plain functions.
\<close>

type_synonym handled = "(db \<times> response) outcome"

section \<open>src/routes/users.js: users\<close>

text \<open>
  \<^verbatim>\<open>router.post('/')\<close>: the missing-field check, the lookup by email, then
  \<^verbatim>\<open>new User({name, email, role})\<close> and \<^verbatim>\<open>save()\<close>; an error thrown inside the
  \<^verbatim>\<open>try\<close> is answered with 500.
\<close>

definition create_user :: "db \<Rightarrow> oid \<Rightarrow> jobj \<Rightarrow> db \<times> response" where
  "create_user dbs nid reqbody =
    (if \<not> truthy (get reqbody ''name'') \<or> \<not> truthy (get reqbody ''email'') \<or>
        \<not> truthy (get reqbody ''role'')
     then (dbs, status_json 400 (PMsg ''Missing required fields''))
     else
       (case find_one (users dbs) [(''email'', CEq (get reqbody ''email''))] of
          Some existingUser \<Rightarrow> (dbs, status_json 400 (PMsg ''User already exists''))
        | None \<Rightarrow>
            (let user = new_doc userSchema nid
                   [''name'' \<mapsto> get reqbody ''name'',
                    ''email'' \<mapsto> get reqbody ''email'',
                    ''role'' \<mapsto> get reqbody ''role'']
             in case save userSchema (users dbs) user of
                  Inl err \<Rightarrow> (dbs, status_json 500 (PErr ''Server error'' err))
                | Inr (us, savedUser) \<Rightarrow>
                    (dbs\<lparr>users := us\<rparr>, status_json 201 (PDoc savedUser)))))"

section \<open>src/routes/users.js, second module: lessons\<close>

text \<open>\<^verbatim>\<open>if (x) query.k = x\<close>\<close>

definition add_filter :: "string \<Rightarrow> qparam \<Rightarrow> query \<Rightarrow> query" where
  "add_filter k x q =
    (case x of
       None \<Rightarrow> q
     | Some v \<Rightarrow> if v \<noteq> [] then q @ [(k, CEq (JStr v))] else q)"

definition list_lessons :: "db \<Rightarrow> qparam \<Rightarrow> response" where
  "list_lessons dbs course =
    (let query = add_filter ''course'' course [];
         ls = map (populate dbs lessonSchema ''course'') (find_docs (lessons dbs) query)
     in json (PList ls))"

definition update_lesson :: "db \<Rightarrow> string \<Rightarrow> jobj \<Rightarrow> handled" where
  "update_lesson dbs rawid reqbody =
    (case find_by_id_and_update lessonSchema (lessons dbs) rawid reqbody True of
       Throws err \<Rightarrow> Throws err
     | Unmodelled \<Rightarrow> Unmodelled
     | Returns (ls, lesson) \<Rightarrow> Returns (dbs\<lparr>lessons := ls\<rparr>, json (doc_or_null lesson)))"

section \<open>src/routes/quizzes.js\<close>

definition create_quiz :: "db \<Rightarrow> oid \<Rightarrow> jobj \<Rightarrow> db \<times> response" where
  "create_quiz dbs nid reqbody =
    (let quiz = new_doc quizSchema nid reqbody
     in case save quizSchema (quizzes dbs) quiz of
          Inl err \<Rightarrow> (dbs, status_json 500 (PErr ''Server error'' err))
        | Inr (qs, saved) \<Rightarrow> (dbs\<lparr>quizzes := qs\<rparr>, status_json 201 (PDoc saved)))"

definition list_quizzes :: "db \<Rightarrow> qparam \<Rightarrow> response" where
  "list_quizzes dbs lesson =
    (let query = add_filter ''lesson'' lesson [];
         qs = map (populate dbs quizSchema ''lesson'') (find_docs (quizzes dbs) query)
     in json (PList qs))"

definition update_quiz :: "db \<Rightarrow> string \<Rightarrow> jobj \<Rightarrow> handled" where
  "update_quiz dbs rawid reqbody =
    (case find_by_id_and_update quizSchema (quizzes dbs) rawid reqbody True of
       Throws err \<Rightarrow> Returns (dbs, status_json 500 (PErr ''Server error'' err))
     | Unmodelled \<Rightarrow> Unmodelled
     | Returns (qs, quiz) \<Rightarrow>
         (case quiz of
            None \<Rightarrow> Returns (dbs\<lparr>quizzes := qs\<rparr>, status_json 404 (PMsg ''Quiz not found''))
          | Some q \<Rightarrow> Returns (dbs\<lparr>quizzes := qs\<rparr>, json (PDoc q))))"

definition delete_quiz :: "db \<Rightarrow> string \<Rightarrow> handled" where
  "delete_quiz dbs rawid =
    (case find_by_id_and_delete (quizzes dbs) rawid of
       Throws err \<Rightarrow> Returns (dbs, status_json 500 (PErr ''Server error'' err))
     | Unmodelled \<Rightarrow> Unmodelled
     | Returns (qs, quiz) \<Rightarrow>
         (case quiz of
            None \<Rightarrow> Returns (dbs\<lparr>quizzes := qs\<rparr>, status_json 404 (PMsg ''Quiz not found''))
          | Some q \<Rightarrow> Returns (dbs\<lparr>quizzes := qs\<rparr>, json (PMsg ''Quiz deleted''))))"

section \<open>src/routes/enrollments.js\<close>

definition list_enrollments :: "db \<Rightarrow> qparam \<Rightarrow> qparam \<Rightarrow> response" where
  "list_enrollments dbs student course =
    (let query = add_filter ''course'' course (add_filter ''student'' student []);
         es = map (populate dbs enrollmentSchema ''course'' \<circ> populate dbs enrollmentSchema ''student'')
                (find_docs (enrollments dbs) query)
     in json (PList es))"

definition update_enrollment :: "db \<Rightarrow> string \<Rightarrow> jobj \<Rightarrow> handled" where
  "update_enrollment dbs rawid reqbody =
    (case find_by_id_and_update enrollmentSchema (enrollments dbs) rawid reqbody True of
       Throws err \<Rightarrow> Throws err
     | Unmodelled \<Rightarrow> Unmodelled
     | Returns (es, enrollment) \<Rightarrow> Returns (dbs\<lparr>enrollments := es\<rparr>, json (doc_or_null enrollment)))"

section \<open>src/unnamed/part_000: submissions and courses\<close>

definition list_submissions :: "db \<Rightarrow> qparam \<Rightarrow> qparam \<Rightarrow> response" where
  "list_submissions dbs student quiz =
    (let query = add_filter ''quiz'' quiz (add_filter ''student'' student []);
         ss = map (populate dbs submissionSchema ''quiz'' \<circ> populate dbs submissionSchema ''student'')
                (find_docs (submissions dbs) query)
     in json (PList ss))"

definition update_submission :: "db \<Rightarrow> string \<Rightarrow> jobj \<Rightarrow> handled" where
  "update_submission dbs rawid reqbody =
    (case find_by_id_and_update submissionSchema (submissions dbs) rawid reqbody True of
       Throws err \<Rightarrow> Throws err
     | Unmodelled \<Rightarrow> Unmodelled
     | Returns (ss, submission) \<Rightarrow> Returns (dbs\<lparr>submissions := ss\<rparr>, json (doc_or_null submission)))"

text \<open>
  \<^verbatim>\<open>if (title) query.title = { $regex: title, $options: 'i' }\<close>: \<open>None\<close> when the
  title is a pattern outside the modelled fragment.
\<close>

definition add_regex_filter :: "string \<Rightarrow> qparam \<Rightarrow> query \<Rightarrow> query option" where
  "add_regex_filter k x q =
    (case x of
       None \<Rightarrow> Some q
     | Some v \<Rightarrow>
         if v \<noteq> [] then map_option (\<lambda>as. q @ [(k, CRegex as ''i'')]) (parse_pattern v)
         else Some q)"

definition list_courses :: "db \<Rightarrow> qparam \<Rightarrow> qparam \<Rightarrow> response option" where
  "list_courses dbs title instructor =
    (case add_regex_filter ''title'' title [] of
       None \<Rightarrow> None
     | Some q \<Rightarrow>
         (let query = add_filter ''instructor'' instructor q;
              cs = map (populate dbs courseSchema ''lessons'' \<circ> populate dbs courseSchema ''instructor'')
                     (find_docs (courses dbs) query)
          in Some (json (PList cs))))"

definition update_course :: "db \<Rightarrow> string \<Rightarrow> jobj \<Rightarrow> handled" where
  "update_course dbs rawid reqbody =
    (case find_by_id_and_update courseSchema (courses dbs) rawid reqbody True of
       Throws err \<Rightarrow> Throws err
     | Unmodelled \<Rightarrow> Unmodelled
     | Returns (cs, course) \<Rightarrow> Returns (dbs\<lparr>courses := cs\<rparr>, json (doc_or_null course)))"

section \<open>src/server.js: the routers and their mount paths\<close>

datatype router =
    userRoutes | courseRoutes | lessonRoutes | enrollmentRoutes | quizRoutes | submissionRoutes

text \<open>The module each router is required from (lines 10 to 15), without \<^verbatim>\<open>./routes/\<close>.\<close>

fun route_module :: "router \<Rightarrow> string" where
  "route_module userRoutes = ''users''"
| "route_module courseRoutes = ''courses''"
| "route_module lessonRoutes = ''lessons''"
| "route_module enrollmentRoutes = ''enrollments''"
| "route_module quizRoutes = ''quizzes''"
| "route_module submissionRoutes = ''submissions''"

text \<open>The \<^verbatim>\<open>app.use(prefix, router)\<close> calls of lines 102 to 107, in order.\<close>

definition app_routes :: "(string \<times> router) list" where
  "app_routes =
    [(''/api/users'', userRoutes),
     (''/api/courses'', courseRoutes),
     (''/api/lessons'', lessonRoutes),
     (''/api/enrollments'', enrollmentRoutes),
     (''/api/quizzes'', quizRoutes),
     (''/api/submissions'', submissionRoutes)]"

definition mount_paths :: "router \<Rightarrow> string list" where
  "mount_paths r = map fst (filter (\<lambda>(p, r'). r' = r) app_routes)"

section \<open>Observations and stated criteria\<close>





section \<open>Sample data\<close>

definition db0 :: db where
  "db0 = \<lparr>users = [], courses = [], lessons = [], quizzes = [], submissions = [], enrollments = []\<rparr>"

definition john :: doc where
  "john = \<lparr>doc_id = ''u1'',
     doc_fields = [''name'' \<mapsto> JStr ''John Doe'', ''email'' \<mapsto> JStr ''john@example.com'', ''role'' \<mapsto> JStr ''student''],
     doc_v = 0\<rparr>"

definition db_john :: db where
  "db_john = db0\<lparr>users := [john]\<rparr>"




definition submission :: "oid \<Rightarrow> oid \<Rightarrow> oid \<Rightarrow> doc" where
  "submission i s q = \<lparr>doc_id = i,
     doc_fields = [''student'' \<mapsto> JStr s, ''quiz'' \<mapsto> JStr q, ''answer'' \<mapsto> JStr ''A JavaScript runtime''],
     doc_v = 0\<rparr>"


text \<open>Documents with well-formed ids, for the operations by id.\<close>

definition user_id :: oid where "user_id = ''60d21b4667d0d8992e610c85''"

definition course_id :: oid where "course_id = ''60d21b4667d0d8992e610c86''"

definition quiz_id :: oid where "quiz_id = ''60d21b4667d0d8992e610c87''"

definition lesson_id :: oid where "lesson_id = ''60d21b4667d0d8992e610c88''"

definition submission_id :: oid where "submission_id = ''60d21b4667d0d8992e610c89''"

definition enrollment_id :: oid where "enrollment_id = ''60d21b4667d0d8992e610c8a''"

definition absent_id :: oid where "absent_id = ''60d21b4667d0d8992e610cff''"

definition quiz1 :: doc where
  "quiz1 = \<lparr>doc_id = quiz_id,
     doc_fields = [''question'' \<mapsto> JStr ''What is Node.js?'',
                   ''options'' \<mapsto> JArr [JStr ''A JavaScript runtime'', JStr ''A database''],
                   ''answer'' \<mapsto> JStr ''A database'',
                   ''lesson'' \<mapsto> JStr lesson_id],
     doc_v = 0\<rparr>"

definition lesson1 :: doc where
  "lesson1 = \<lparr>doc_id = lesson_id,
     doc_fields = [''title'' \<mapsto> JStr ''Introduction to Express'', ''course'' \<mapsto> JStr course_id],
     doc_v = 0\<rparr>"

definition course3 :: doc where
  "course3 = \<lparr>doc_id = course_id,
     doc_fields = [''title'' \<mapsto> JStr ''Introduction to Node.js'', ''instructor'' \<mapsto> JStr user_id,
                   ''lessons'' \<mapsto> JArr [JStr lesson_id]],
     doc_v = 0\<rparr>"

definition submission3 :: doc where
  "submission3 = \<lparr>doc_id = submission_id,
     doc_fields = [''student'' \<mapsto> JStr user_id, ''quiz'' \<mapsto> JStr quiz_id,
                   ''answer'' \<mapsto> JStr ''A database''],
     doc_v = 0\<rparr>"

definition enrollment1 :: doc where
  "enrollment1 = \<lparr>doc_id = enrollment_id,
     doc_fields = [''student'' \<mapsto> JStr user_id, ''course'' \<mapsto> JStr course_id],
     doc_v = 0\<rparr>"

definition db_school :: db where
  "db_school = \<lparr>users = [], courses = [course3], lessons = [lesson1], quizzes = [quiz1],
     submissions = [submission3], enrollments = [enrollment1]\<rparr>"

section \<open>User creation\<close>

lemma truthy_required: "truthy v \<Longrightarrow> required_ok (Some v)"
  by (cases v) simp_all


lemma validate_user_doc:
  "truthy a \<Longrightarrow> truthy b \<Longrightarrow> truthy c \<Longrightarrow>
   validate userSchema
     \<lparr>doc_id = nid, doc_fields = [''name'' \<mapsto> a, ''email'' \<mapsto> b, ''role'' \<mapsto> c], doc_v = 0\<rparr> = []"
  by (simp add: validate_def userSchema_def path_def path_ok_def truthy_required)

lemma new_user_doc:
  "a \<noteq> JUndefined \<Longrightarrow> b \<noteq> JUndefined \<Longrightarrow> c \<noteq> JUndefined \<Longrightarrow>
   new_doc userSchema nid [''name'' \<mapsto> a, ''email'' \<mapsto> b, ''role'' \<mapsto> c]
     = \<lparr>doc_id = nid, doc_fields = [''name'' \<mapsto> a, ''email'' \<mapsto> b, ''role'' \<mapsto> c], doc_v = 0\<rparr>"
  apply (simp add: new_doc_def)
  apply (rule ext)
  apply (auto simp add: defaults_def userSchema_def path_def default_of_def List.map_filter_simps
      path_names_def defined_props_def map_add_def restrict_map_def split: option.splits jval.splits)
  done



lemma new_user_doc_fields:
  "doc_fields (new_doc userSchema nid obj) k =
     (if k \<in> {''name'', ''email'', ''role''} then defined_props obj k else None)"
  by (auto simp add: new_doc_def defaults_def userSchema_def path_def default_of_def
      List.map_filter_simps path_names_def map_add_def restrict_map_def split: option.splits)

lemma new_doc_id: "doc_id (new_doc sch nid obj) = nid"
  by (simp add: new_doc_def)

lemma save_cases:
  "save sch c d = Inr (c @ [d], d) \<or> (\<exists>e. save sch c d = Inl e)"
  by (simp add: save_def split: list.splits)



text \<open>
  Claim C8. For every request body, creating a user gives the same outcome as creating
  it from the body restricted to name, email and role. A response other than 201
  leaves the store unchanged; with a 201 response exactly one document is appended,
  it is the one returned, it has the assigned id, every field other than name, email
  and role is absent from it, and the three fields have the values of the body.
\<close>

theorem create_user_only_three_fields:
  "create_user dbs nid b = create_user dbs nid (b |` {''name'', ''email'', ''role''})
   \<and> (status (snd (create_user dbs nid b)) \<noteq> 201 \<longrightarrow> fst (create_user dbs nid b) = dbs)
   \<and> (status (snd (create_user dbs nid b)) = 201 \<longrightarrow>
        (\<exists>d. fst (create_user dbs nid b) = dbs\<lparr>users := users dbs @ [d]\<rparr> \<and>
             body (snd (create_user dbs nid b)) = PDoc d \<and> doc_id d = nid \<and>
             (\<forall>k. k \<notin> {''name'', ''email'', ''role''} \<longrightarrow> doc_fields d k = None) \<and>
             doc_fields d ''name'' = b ''name'' \<and> doc_fields d ''email'' = b ''email'' \<and>
             doc_fields d ''role'' = b ''role''))"
proof (intro conjI impI)
  have "get (b |` {''name'', ''email'', ''role''}) ''name'' = get b ''name''"
    "get (b |` {''name'', ''email'', ''role''}) ''email'' = get b ''email''"
    "get (b |` {''name'', ''email'', ''role''}) ''role'' = get b ''role''"
    by (simp_all add: get_def)
  then show "create_user dbs nid b = create_user dbs nid (b |` {''name'', ''email'', ''role''})"
    unfolding create_user_def by (simp only:)
next
  assume "status (snd (create_user dbs nid b)) \<noteq> 201"
  then show "fst (create_user dbs nid b) = dbs"
    by (auto simp add: create_user_def Let_def status_json_def split: option.splits sum.splits if_splits)
next
  assume a: "status (snd (create_user dbs nid b)) = 201"
  let ?u = "new_doc userSchema nid
     [''name'' \<mapsto> get b ''name'', ''email'' \<mapsto> get b ''email'', ''role'' \<mapsto> get b ''role'']"
  from a have t: "truthy (get b ''name'')" "truthy (get b ''email'')" "truthy (get b ''role'')"
    by (auto simp add: create_user_def status_json_def split: if_splits)
  from a t have r: "create_user dbs nid b = (dbs\<lparr>users := users dbs @ [?u]\<rparr>, status_json 201 (PDoc ?u))"
    using save_cases[of userSchema "users dbs" ?u]
    by (auto simp add: create_user_def Let_def status_json_def split: option.splits)
  have "doc_fields ?u ''name'' = b ''name''" "doc_fields ?u ''email'' = b ''email''"
    "doc_fields ?u ''role'' = b ''role''"
    using t
    by (auto simp add: new_user_doc_fields defined_props_def get_def split: option.splits jval.splits)
  moreover have "\<forall>k. k \<notin> {''name'', ''email'', ''role''} \<longrightarrow> doc_fields ?u k = None"
    by (simp add: new_user_doc_fields)
  ultimately show "\<exists>d. fst (create_user dbs nid b) = dbs\<lparr>users := users dbs @ [d]\<rparr> \<and>
             body (snd (create_user dbs nid b)) = PDoc d \<and> doc_id d = nid \<and>
             (\<forall>k. k \<notin> {''name'', ''email'', ''role''} \<longrightarrow> doc_fields d k = None) \<and>
             doc_fields d ''name'' = b ''name'' \<and> doc_fields d ''email'' = b ''email'' \<and>
             doc_fields d ''role'' = b ''role''"
    unfolding r by (intro exI[of _ ?u]) (simp add: status_json_def new_doc_id)
qed

theorem create_user_only_three_fields_witness:
  "create_user db0 ''u1''
       [''name'' \<mapsto> JStr ''John Doe'', ''email'' \<mapsto> JStr ''john@example.com'', ''role'' \<mapsto> JStr ''student'',
        ''isAdmin'' \<mapsto> JBool True]
     = (db0\<lparr>users := users db0 @ [john]\<rparr>, status_json 201 (PDoc john))
   \<and> doc_fields john ''isAdmin'' = None
   \<and> fst (create_user db_john ''u2''
       [''name'' \<mapsto> JStr ''John Doe'', ''email'' \<mapsto> JStr ''john@example.com'', ''role'' \<mapsto> JStr ''student'',
        ''isAdmin'' \<mapsto> JBool True]) = db_john"
proof -
  let ?b = "[''name'' \<mapsto> JStr ''John Doe'', ''email'' \<mapsto> JStr ''john@example.com'', ''role'' \<mapsto> JStr ''student'',
        ''isAdmin'' \<mapsto> JBool True]"
  let ?b' = "[''name'' \<mapsto> JStr ''John Doe'', ''email'' \<mapsto> JStr ''john@example.com'', ''role'' \<mapsto> JStr ''student'']"
  have e: "create_user dbs nid ?b = create_user dbs nid (?b |` {''name'', ''email'', ''role''})" for dbs nid
    using create_user_only_three_fields[of dbs nid ?b] by blast
  have "?b |` {''name'', ''email'', ''role''} = ?b'"
    by (rule ext) (simp add: restrict_map_def)
  with e have e': "create_user dbs nid ?b = create_user dbs nid ?b'" for dbs nid by simp
  have g: "get ?b' ''name'' = JStr ''John Doe''" "get ?b' ''email'' = JStr ''john@example.com''"
    "get ?b' ''role'' = JStr ''student''"
    by (simp_all add: get_def)
  have f: "find_one (users db0) [(''email'', CEq (JStr ''john@example.com''))] = None"
    by (simp add: find_one_def db0_def)
  have r: "create_user db0 ''u1'' ?b' = (db0\<lparr>users := users db0 @ [john]\<rparr>, status_json 201 (PDoc john))"
    unfolding create_user_def g f
    by (simp add: new_user_doc save_def validate_user_doc Let_def john_def status_json_def del: fun_upd_apply)
  have f2: "find_one (users db_john) [(''email'', CEq (JStr ''john@example.com''))] = Some john"
    by (simp add: find_one_def db_john_def db0_def matches_def john_def)
  have s': "status (snd (create_user db_john ''u2'' ?b')) \<noteq> 201"
    unfolding create_user_def g f2 by (simp add: status_json_def)
  have s: "status (snd (create_user db_john ''u2'' ?b)) \<noteq> 201"
    unfolding e' by (rule s')
  have u: "fst (create_user db_john ''u2'' ?b) = db_john"
    using create_user_only_three_fields[of db_john "''u2''" ?b] s by blast
  have "create_user db0 ''u1'' ?b = (db0\<lparr>users := users db0 @ [john]\<rparr>, status_json 201 (PDoc john))"
    unfolding e' by (rule r)
  moreover have "doc_fields john ''isAdmin'' = None" by (simp add: john_def)
  ultimately show ?thesis using u by (intro conjI)
qed

section \<open>Update and delete by id\<close>

lemma find_by_id_None: "find_by_id c i = None \<longleftrightarrow> i \<notin> doc_id ` set c"
  by (auto simp add: find_by_id_def find_None_iff)

lemma find_by_id_Some_id: "find_by_id c i = Some d \<Longrightarrow> doc_id d = i \<and> d \<in> set c"
  by (auto simp add: find_by_id_def find_Some_iff)

lemma find_by_id_update_first_same:
  "find_by_id c i = Some d \<Longrightarrow> doc_id (f d) = i \<Longrightarrow> find_by_id (update_first i f c) i = Some (f d)"
  by (induction c) (auto simp add: find_by_id_def)

lemma remove_first_remove1: "find_by_id c i = Some d \<Longrightarrow> remove_first i c = remove1 d c"
proof (induction c)
  case Nil
  then show ?case by (simp add: find_by_id_def)
next
  case (Cons a c)
  show ?case
  proof (cases "doc_id a = i")
    case True
    with Cons.prems show ?thesis by (simp add: find_by_id_def)
  next
    case False
    with Cons.prems have t: "find_by_id c i = Some d" by (simp add: find_by_id_def)
    then have "doc_id d = i" using find_by_id_Some_id by blast
    with False have "d \<noteq> a" by auto
    with False Cons.IH[OF t] show ?thesis by simp
  qed
qed

lemma cast_object_id_well_formed: "well_formed_id s \<Longrightarrow> cast_object_id s = Cast (map to_lower s)"
  by (simp add: cast_object_id_def)

lemma apply_set_id: "doc_id (apply_set u d) = doc_id d"
  by (simp add: apply_set_def)

lemma cast_update_Returns: "cast_update sch b = Returns u \<Longrightarrow> u = cast_set sch b"
  by (auto simp add: cast_update_def split: list.splits if_splits)

lemma cast_set_absent: "b k = None \<Longrightarrow> cast_set sch b k = None"
  by (simp add: cast_set_def cast_path_def defined_props_def split: option.splits)

lemma cast_set_string:
  "path_type sch k = Some TString \<Longrightarrow> b k = Some (JStr v) \<Longrightarrow> cast_set sch b k = Some (JStr v)"
  by (simp add: cast_set_def cast_path_def defined_props_def)

lemma cast_set_object_id:
  "path_type sch k = Some (TObjectId c) \<Longrightarrow> b k = Some (JStr v) \<Longrightarrow> well_formed_id v \<Longrightarrow>
   cast_set sch b k = Some (JStr (map to_lower v))"
  by (simp add: cast_set_def cast_path_def defined_props_def cast_object_id_well_formed)

lemma update_absent:
  "well_formed_id s \<Longrightarrow> cast_update sch b = Returns u \<Longrightarrow> map to_lower s \<notin> doc_id ` set c \<Longrightarrow>
   find_by_id_and_update sch c s b n = Returns (c, None)"
  using find_by_id_None[of c "map to_lower s"]
  by (simp add: find_by_id_and_update_def cast_object_id_well_formed)

lemma update_present:
  "well_formed_id s \<Longrightarrow> cast_update sch b = Returns u \<Longrightarrow> find_by_id c (map to_lower s) = Some d \<Longrightarrow>
   find_by_id_and_update sch c s b True =
     Returns (update_first (map to_lower s) (apply_set u) c, Some (apply_set u d))"
  by (simp add: find_by_id_and_update_def cast_object_id_well_formed)

lemma delete_absent:
  "well_formed_id s \<Longrightarrow> map to_lower s \<notin> doc_id ` set c \<Longrightarrow>
   find_by_id_and_delete c s = Returns (c, None)"
  using find_by_id_None[of c "map to_lower s"]
  by (simp add: find_by_id_and_delete_def cast_object_id_well_formed)

lemma delete_present:
  "well_formed_id s \<Longrightarrow> find_by_id c (map to_lower s) = Some d \<Longrightarrow>
   find_by_id_and_delete c s = Returns (remove1 d c, Some d)"
  by (simp add: find_by_id_and_delete_def cast_object_id_well_formed remove_first_remove1)

lemma update_present_effect:
  assumes "well_formed_id s \<and> cast_update sch b = Returns u \<and> find_by_id c (map to_lower s) = Some d"
  shows "\<exists>c' d'. find_by_id_and_update sch c s b True = Returns (c', Some d') \<and>
           find_by_id c' (map to_lower s) = Some d' \<and>
           doc_id d' = doc_id d \<and>
         (\<forall>k. b k = None \<longrightarrow> doc_fields d' k = doc_fields d k) \<and>
         (\<forall>k v. path_type sch k = Some TString \<and> b k = Some (JStr v) \<longrightarrow>
                doc_fields d' k = Some (JStr v)) \<and>
         (\<forall>k c v. path_type sch k = Some (TObjectId c) \<and> b k = Some (JStr v) \<and> well_formed_id v \<longrightarrow>
                doc_fields d' k = Some (JStr (map to_lower v)))"
proof -
  from assms have w: "well_formed_id s" and cu: "cast_update sch b = Returns u"
    and f: "find_by_id c (map to_lower s) = Some d" by simp_all
  have i: "doc_id d = map to_lower s" using f find_by_id_Some_id by blast
  have u: "u = cast_set sch b" using cu by (rule cast_update_Returns)
  show ?thesis
    apply (rule exI[of _ "update_first (map to_lower s) (apply_set u) c"])
    apply (rule exI[of _ "apply_set u d"])
    apply (simp add: update_present[OF w cu f] find_by_id_update_first_same[OF f] apply_set_id i)
    apply (simp add: apply_set_def u map_add_def cast_set_absent cast_set_string cast_set_object_id)
    done
qed

text \<open>
  Claim C3, as amended. For every well-formed id (24 hexadecimal digits) that no stored
  quiz has, delete-by-id answers 404 with the message "Quiz not found" and leaves the
  store unchanged, and so does update-by-id when the body casts (plain fields whose
  values have the types of their fields). For every well-formed id that a stored quiz
  has, delete answers 200 with the message "Quiz deleted" and removes the document,
  and update with such a body answers 200 with the updated document, which is the one
  the store then holds under that id: a field that the body does not name is as
  before, and a string or reference field that the body names has the value of the
  body.
\<close>

theorem quiz_update_delete_by_id:
  "(well_formed_id s \<and> map to_lower s \<notin> doc_id ` set (quizzes dbs) \<longrightarrow>
      delete_quiz dbs s = Returns (dbs, \<lparr>status = 404, body = PMsg ''Quiz not found''\<rparr>) \<and>
      (cast_update quizSchema b = Returns u \<longrightarrow>
         update_quiz dbs s b = Returns (dbs, \<lparr>status = 404, body = PMsg ''Quiz not found''\<rparr>)))
   \<and> (well_formed_id s \<and> find_by_id (quizzes dbs) (map to_lower s) = Some q \<longrightarrow>
      (\<exists>dbs'. delete_quiz dbs s = Returns (dbs', \<lparr>status = 200, body = PMsg ''Quiz deleted''\<rparr>) \<and>
         quizzes dbs' = remove1 q (quizzes dbs)) \<and>
      (cast_update quizSchema b = Returns u \<longrightarrow>
        (\<exists>dbs' q'. update_quiz dbs s b = Returns (dbs', \<lparr>status = 200, body = PDoc q'\<rparr>) \<and>
           find_by_id (quizzes dbs') (map to_lower s) = Some q' \<and>
           doc_id q' = doc_id q \<and>
           (\<forall>k. b k = None \<longrightarrow> doc_fields q' k = doc_fields q k) \<and>
           (\<forall>k v. path_type quizSchema k = Some TString \<and> b k = Some (JStr v) \<longrightarrow>
                  doc_fields q' k = Some (JStr v)) \<and>
           (\<forall>k c v. path_type quizSchema k = Some (TObjectId c) \<and> b k = Some (JStr v) \<and> well_formed_id v \<longrightarrow>
                  doc_fields q' k = Some (JStr (map to_lower v))))))"
proof (intro conjI impI)
  assume a: "well_formed_id s \<and> map to_lower s \<notin> doc_id ` set (quizzes dbs)"
  then show "delete_quiz dbs s = Returns (dbs, \<lparr>status = 404, body = PMsg ''Quiz not found''\<rparr>)"
    by (simp add: delete_quiz_def delete_absent status_json_def)
  assume "cast_update quizSchema b = Returns u"
  with a show "update_quiz dbs s b = Returns (dbs, \<lparr>status = 404, body = PMsg ''Quiz not found''\<rparr>)"
    by (simp add: update_quiz_def update_absent status_json_def)
next
  assume a: "well_formed_id s \<and> find_by_id (quizzes dbs) (map to_lower s) = Some q"
  then show "\<exists>dbs'. delete_quiz dbs s = Returns (dbs', \<lparr>status = 200, body = PMsg ''Quiz deleted''\<rparr>) \<and>
         quizzes dbs' = remove1 q (quizzes dbs)"
    by (intro exI[of _ "dbs\<lparr>quizzes := remove1 q (quizzes dbs)\<rparr>"])
       (simp add: delete_quiz_def delete_present json_def status_json_def)
  assume cu: "cast_update quizSchema b = Returns u"
  from update_present_effect[of s quizSchema b u "quizzes dbs" q] a cu
  obtain c' q' where u: "find_by_id_and_update quizSchema (quizzes dbs) s b True = Returns (c', Some q')"
    and e: "find_by_id c' (map to_lower s) = Some q'"
      "doc_id q' = doc_id q \<and>
         (\<forall>k. b k = None \<longrightarrow> doc_fields q' k = doc_fields q k) \<and>
         (\<forall>k v. path_type quizSchema k = Some TString \<and> b k = Some (JStr v) \<longrightarrow>
                doc_fields q' k = Some (JStr v)) \<and>
         (\<forall>k c v. path_type quizSchema k = Some (TObjectId c) \<and> b k = Some (JStr v) \<and> well_formed_id v \<longrightarrow>
                doc_fields q' k = Some (JStr (map to_lower v)))"
    by blast
  show "\<exists>dbs' q'. update_quiz dbs s b = Returns (dbs', \<lparr>status = 200, body = PDoc q'\<rparr>) \<and>
           find_by_id (quizzes dbs') (map to_lower s) = Some q' \<and>
           doc_id q' = doc_id q \<and>
         (\<forall>k. b k = None \<longrightarrow> doc_fields q' k = doc_fields q k) \<and>
         (\<forall>k v. path_type quizSchema k = Some TString \<and> b k = Some (JStr v) \<longrightarrow>
                doc_fields q' k = Some (JStr v)) \<and>
         (\<forall>k c v. path_type quizSchema k = Some (TObjectId c) \<and> b k = Some (JStr v) \<and> well_formed_id v \<longrightarrow>
                doc_fields q' k = Some (JStr (map to_lower v)))"
    apply (rule exI[of _ "dbs\<lparr>quizzes := c'\<rparr>"], rule exI[of _ q'])
    using e by (simp add: update_quiz_def u json_def status_json_def)
qed

text \<open>
  Claim C4, as amended. For Lesson, Course, Submission and Enrollment, updating a
  well-formed id that no stored document has, with a body that casts, is answered
  with 200 and the body null, not with 404, and the store is unchanged.
\<close>

theorem update_absent_id_null_success:
  "(well_formed_id s \<and> cast_update lessonSchema b = Returns u \<and>
       map to_lower s \<notin> doc_id ` set (lessons dbs) \<longrightarrow>
      update_lesson dbs s b = Returns (dbs, \<lparr>status = 200, body = PNull\<rparr>))
   \<and> (well_formed_id s \<and> cast_update courseSchema b = Returns u \<and>
       map to_lower s \<notin> doc_id ` set (courses dbs) \<longrightarrow>
      update_course dbs s b = Returns (dbs, \<lparr>status = 200, body = PNull\<rparr>))
   \<and> (well_formed_id s \<and> cast_update submissionSchema b = Returns u \<and>
       map to_lower s \<notin> doc_id ` set (submissions dbs) \<longrightarrow>
      update_submission dbs s b = Returns (dbs, \<lparr>status = 200, body = PNull\<rparr>))
   \<and> (well_formed_id s \<and> cast_update enrollmentSchema b = Returns u \<and>
       map to_lower s \<notin> doc_id ` set (enrollments dbs) \<longrightarrow>
      update_enrollment dbs s b = Returns (dbs, \<lparr>status = 200, body = PNull\<rparr>))"
  by (simp add: update_lesson_def update_course_def update_submission_def update_enrollment_def
      update_absent json_def status_json_def doc_or_null_def)

text \<open>
  Claim C10, as amended. For Quiz, Lesson, Course, Submission and Enrollment, updating
  the document stored under a well-formed id with a body that casts (plain top-level
  fields whose values have the types of their fields: no update operator, dotted
  path, \<^verbatim>\<open>_id\<close> or \<^verbatim>\<open>__v\<close>) answers 200 with the document as it is after the
  update (the one the store then holds under that id): it keeps its id, every field
  that the body does not name keeps its previous value, and every string or
  reference field that the body names has the value of the body.
\<close>

theorem update_by_id_shallow_patch:
  "(well_formed_id s \<and> cast_update quizSchema b = Returns u \<and>
       find_by_id (quizzes dbs) (map to_lower s) = Some d \<longrightarrow>
      (\<exists>dbs' d'. update_quiz dbs s b = Returns (dbs', \<lparr>status = 200, body = PDoc d'\<rparr>) \<and>
         find_by_id (quizzes dbs') (map to_lower s) = Some d' \<and>
         doc_id d' = doc_id d \<and>
         (\<forall>k. b k = None \<longrightarrow> doc_fields d' k = doc_fields d k) \<and>
         (\<forall>k v. path_type quizSchema k = Some TString \<and> b k = Some (JStr v) \<longrightarrow>
                doc_fields d' k = Some (JStr v)) \<and>
         (\<forall>k c v. path_type quizSchema k = Some (TObjectId c) \<and> b k = Some (JStr v) \<and> well_formed_id v \<longrightarrow>
                doc_fields d' k = Some (JStr (map to_lower v)))))
   \<and> (well_formed_id s \<and> cast_update lessonSchema b = Returns u \<and>
       find_by_id (lessons dbs) (map to_lower s) = Some d \<longrightarrow>
      (\<exists>dbs' d'. update_lesson dbs s b = Returns (dbs', \<lparr>status = 200, body = PDoc d'\<rparr>) \<and>
         find_by_id (lessons dbs') (map to_lower s) = Some d' \<and>
         doc_id d' = doc_id d \<and>
         (\<forall>k. b k = None \<longrightarrow> doc_fields d' k = doc_fields d k) \<and>
         (\<forall>k v. path_type lessonSchema k = Some TString \<and> b k = Some (JStr v) \<longrightarrow>
                doc_fields d' k = Some (JStr v)) \<and>
         (\<forall>k c v. path_type lessonSchema k = Some (TObjectId c) \<and> b k = Some (JStr v) \<and> well_formed_id v \<longrightarrow>
                doc_fields d' k = Some (JStr (map to_lower v)))))
   \<and> (well_formed_id s \<and> cast_update courseSchema b = Returns u \<and>
       find_by_id (courses dbs) (map to_lower s) = Some d \<longrightarrow>
      (\<exists>dbs' d'. update_course dbs s b = Returns (dbs', \<lparr>status = 200, body = PDoc d'\<rparr>) \<and>
         find_by_id (courses dbs') (map to_lower s) = Some d' \<and>
         doc_id d' = doc_id d \<and>
         (\<forall>k. b k = None \<longrightarrow> doc_fields d' k = doc_fields d k) \<and>
         (\<forall>k v. path_type courseSchema k = Some TString \<and> b k = Some (JStr v) \<longrightarrow>
                doc_fields d' k = Some (JStr v)) \<and>
         (\<forall>k c v. path_type courseSchema k = Some (TObjectId c) \<and> b k = Some (JStr v) \<and> well_formed_id v \<longrightarrow>
                doc_fields d' k = Some (JStr (map to_lower v)))))
   \<and> (well_formed_id s \<and> cast_update submissionSchema b = Returns u \<and>
       find_by_id (submissions dbs) (map to_lower s) = Some d \<longrightarrow>
      (\<exists>dbs' d'. update_submission dbs s b = Returns (dbs', \<lparr>status = 200, body = PDoc d'\<rparr>) \<and>
         find_by_id (submissions dbs') (map to_lower s) = Some d' \<and>
         doc_id d' = doc_id d \<and>
         (\<forall>k. b k = None \<longrightarrow> doc_fields d' k = doc_fields d k) \<and>
         (\<forall>k v. path_type submissionSchema k = Some TString \<and> b k = Some (JStr v) \<longrightarrow>
                doc_fields d' k = Some (JStr v)) \<and>
         (\<forall>k c v. path_type submissionSchema k = Some (TObjectId c) \<and> b k = Some (JStr v) \<and> well_formed_id v \<longrightarrow>
                doc_fields d' k = Some (JStr (map to_lower v)))))
   \<and> (well_formed_id s \<and> cast_update enrollmentSchema b = Returns u \<and>
       find_by_id (enrollments dbs) (map to_lower s) = Some d \<longrightarrow>
      (\<exists>dbs' d'. update_enrollment dbs s b = Returns (dbs', \<lparr>status = 200, body = PDoc d'\<rparr>) \<and>
         find_by_id (enrollments dbs') (map to_lower s) = Some d' \<and>
         doc_id d' = doc_id d \<and>
         (\<forall>k. b k = None \<longrightarrow> doc_fields d' k = doc_fields d k) \<and>
         (\<forall>k v. path_type enrollmentSchema k = Some TString \<and> b k = Some (JStr v) \<longrightarrow>
                doc_fields d' k = Some (JStr v)) \<and>
         (\<forall>k c v. path_type enrollmentSchema k = Some (TObjectId c) \<and> b k = Some (JStr v) \<and> well_formed_id v \<longrightarrow>
                doc_fields d' k = Some (JStr (map to_lower v)))))"
proof (intro conjI impI)
  assume a: "well_formed_id s \<and> cast_update quizSchema b = Returns u \<and>
       find_by_id (quizzes dbs) (map to_lower s) = Some d"
  from update_present_effect[of s quizSchema b u "quizzes dbs" d] a
  obtain c' d' where u: "find_by_id_and_update quizSchema (quizzes dbs) s b True = Returns (c', Some d')"
    and e: "find_by_id c' (map to_lower s) = Some d'"
      "doc_id d' = doc_id d \<and>
         (\<forall>k. b k = None \<longrightarrow> doc_fields d' k = doc_fields d k) \<and>
         (\<forall>k v. path_type quizSchema k = Some TString \<and> b k = Some (JStr v) \<longrightarrow>
                doc_fields d' k = Some (JStr v)) \<and>
         (\<forall>k c v. path_type quizSchema k = Some (TObjectId c) \<and> b k = Some (JStr v) \<and> well_formed_id v \<longrightarrow>
                doc_fields d' k = Some (JStr (map to_lower v)))"
    by blast
  show "\<exists>dbs' d'. update_quiz dbs s b = Returns (dbs', \<lparr>status = 200, body = PDoc d'\<rparr>) \<and>
         find_by_id (quizzes dbs') (map to_lower s) = Some d' \<and>
         doc_id d' = doc_id d \<and>
         (\<forall>k. b k = None \<longrightarrow> doc_fields d' k = doc_fields d k) \<and>
         (\<forall>k v. path_type quizSchema k = Some TString \<and> b k = Some (JStr v) \<longrightarrow>
                doc_fields d' k = Some (JStr v)) \<and>
         (\<forall>k c v. path_type quizSchema k = Some (TObjectId c) \<and> b k = Some (JStr v) \<and> well_formed_id v \<longrightarrow>
                doc_fields d' k = Some (JStr (map to_lower v)))"
    apply (rule exI[of _ "dbs\<lparr>quizzes := c'\<rparr>"], rule exI[of _ d'])
    using e by (simp add: update_quiz_def u json_def status_json_def doc_or_null_def)
next
  assume a: "well_formed_id s \<and> cast_update lessonSchema b = Returns u \<and>
       find_by_id (lessons dbs) (map to_lower s) = Some d"
  from update_present_effect[of s lessonSchema b u "lessons dbs" d] a
  obtain c' d' where u: "find_by_id_and_update lessonSchema (lessons dbs) s b True = Returns (c', Some d')"
    and e: "find_by_id c' (map to_lower s) = Some d'"
      "doc_id d' = doc_id d \<and>
         (\<forall>k. b k = None \<longrightarrow> doc_fields d' k = doc_fields d k) \<and>
         (\<forall>k v. path_type lessonSchema k = Some TString \<and> b k = Some (JStr v) \<longrightarrow>
                doc_fields d' k = Some (JStr v)) \<and>
         (\<forall>k c v. path_type lessonSchema k = Some (TObjectId c) \<and> b k = Some (JStr v) \<and> well_formed_id v \<longrightarrow>
                doc_fields d' k = Some (JStr (map to_lower v)))"
    by blast
  show "\<exists>dbs' d'. update_lesson dbs s b = Returns (dbs', \<lparr>status = 200, body = PDoc d'\<rparr>) \<and>
         find_by_id (lessons dbs') (map to_lower s) = Some d' \<and>
         doc_id d' = doc_id d \<and>
         (\<forall>k. b k = None \<longrightarrow> doc_fields d' k = doc_fields d k) \<and>
         (\<forall>k v. path_type lessonSchema k = Some TString \<and> b k = Some (JStr v) \<longrightarrow>
                doc_fields d' k = Some (JStr v)) \<and>
         (\<forall>k c v. path_type lessonSchema k = Some (TObjectId c) \<and> b k = Some (JStr v) \<and> well_formed_id v \<longrightarrow>
                doc_fields d' k = Some (JStr (map to_lower v)))"
    apply (rule exI[of _ "dbs\<lparr>lessons := c'\<rparr>"], rule exI[of _ d'])
    using e by (simp add: update_lesson_def u json_def status_json_def doc_or_null_def)
next
  assume a: "well_formed_id s \<and> cast_update courseSchema b = Returns u \<and>
       find_by_id (courses dbs) (map to_lower s) = Some d"
  from update_present_effect[of s courseSchema b u "courses dbs" d] a
  obtain c' d' where u: "find_by_id_and_update courseSchema (courses dbs) s b True = Returns (c', Some d')"
    and e: "find_by_id c' (map to_lower s) = Some d'"
      "doc_id d' = doc_id d \<and>
         (\<forall>k. b k = None \<longrightarrow> doc_fields d' k = doc_fields d k) \<and>
         (\<forall>k v. path_type courseSchema k = Some TString \<and> b k = Some (JStr v) \<longrightarrow>
                doc_fields d' k = Some (JStr v)) \<and>
         (\<forall>k c v. path_type courseSchema k = Some (TObjectId c) \<and> b k = Some (JStr v) \<and> well_formed_id v \<longrightarrow>
                doc_fields d' k = Some (JStr (map to_lower v)))"
    by blast
  show "\<exists>dbs' d'. update_course dbs s b = Returns (dbs', \<lparr>status = 200, body = PDoc d'\<rparr>) \<and>
         find_by_id (courses dbs') (map to_lower s) = Some d' \<and>
         doc_id d' = doc_id d \<and>
         (\<forall>k. b k = None \<longrightarrow> doc_fields d' k = doc_fields d k) \<and>
         (\<forall>k v. path_type courseSchema k = Some TString \<and> b k = Some (JStr v) \<longrightarrow>
                doc_fields d' k = Some (JStr v)) \<and>
         (\<forall>k c v. path_type courseSchema k = Some (TObjectId c) \<and> b k = Some (JStr v) \<and> well_formed_id v \<longrightarrow>
                doc_fields d' k = Some (JStr (map to_lower v)))"
    apply (rule exI[of _ "dbs\<lparr>courses := c'\<rparr>"], rule exI[of _ d'])
    using e by (simp add: update_course_def u json_def status_json_def doc_or_null_def)
next
  assume a: "well_formed_id s \<and> cast_update submissionSchema b = Returns u \<and>
       find_by_id (submissions dbs) (map to_lower s) = Some d"
  from update_present_effect[of s submissionSchema b u "submissions dbs" d] a
  obtain c' d' where u: "find_by_id_and_update submissionSchema (submissions dbs) s b True = Returns (c', Some d')"
    and e: "find_by_id c' (map to_lower s) = Some d'"
      "doc_id d' = doc_id d \<and>
         (\<forall>k. b k = None \<longrightarrow> doc_fields d' k = doc_fields d k) \<and>
         (\<forall>k v. path_type submissionSchema k = Some TString \<and> b k = Some (JStr v) \<longrightarrow>
                doc_fields d' k = Some (JStr v)) \<and>
         (\<forall>k c v. path_type submissionSchema k = Some (TObjectId c) \<and> b k = Some (JStr v) \<and> well_formed_id v \<longrightarrow>
                doc_fields d' k = Some (JStr (map to_lower v)))"
    by blast
  show "\<exists>dbs' d'. update_submission dbs s b = Returns (dbs', \<lparr>status = 200, body = PDoc d'\<rparr>) \<and>
         find_by_id (submissions dbs') (map to_lower s) = Some d' \<and>
         doc_id d' = doc_id d \<and>
         (\<forall>k. b k = None \<longrightarrow> doc_fields d' k = doc_fields d k) \<and>
         (\<forall>k v. path_type submissionSchema k = Some TString \<and> b k = Some (JStr v) \<longrightarrow>
                doc_fields d' k = Some (JStr v)) \<and>
         (\<forall>k c v. path_type submissionSchema k = Some (TObjectId c) \<and> b k = Some (JStr v) \<and> well_formed_id v \<longrightarrow>
                doc_fields d' k = Some (JStr (map to_lower v)))"
    apply (rule exI[of _ "dbs\<lparr>submissions := c'\<rparr>"], rule exI[of _ d'])
    using e by (simp add: update_submission_def u json_def status_json_def doc_or_null_def)
next
  assume a: "well_formed_id s \<and> cast_update enrollmentSchema b = Returns u \<and>
       find_by_id (enrollments dbs) (map to_lower s) = Some d"
  from update_present_effect[of s enrollmentSchema b u "enrollments dbs" d] a
  obtain c' d' where u: "find_by_id_and_update enrollmentSchema (enrollments dbs) s b True = Returns (c', Some d')"
    and e: "find_by_id c' (map to_lower s) = Some d'"
      "doc_id d' = doc_id d \<and>
         (\<forall>k. b k = None \<longrightarrow> doc_fields d' k = doc_fields d k) \<and>
         (\<forall>k v. path_type enrollmentSchema k = Some TString \<and> b k = Some (JStr v) \<longrightarrow>
                doc_fields d' k = Some (JStr v)) \<and>
         (\<forall>k c v. path_type enrollmentSchema k = Some (TObjectId c) \<and> b k = Some (JStr v) \<and> well_formed_id v \<longrightarrow>
                doc_fields d' k = Some (JStr (map to_lower v)))"
    by blast
  show "\<exists>dbs' d'. update_enrollment dbs s b = Returns (dbs', \<lparr>status = 200, body = PDoc d'\<rparr>) \<and>
         find_by_id (enrollments dbs') (map to_lower s) = Some d' \<and>
         doc_id d' = doc_id d \<and>
         (\<forall>k. b k = None \<longrightarrow> doc_fields d' k = doc_fields d k) \<and>
         (\<forall>k v. path_type enrollmentSchema k = Some TString \<and> b k = Some (JStr v) \<longrightarrow>
                doc_fields d' k = Some (JStr v)) \<and>
         (\<forall>k c v. path_type enrollmentSchema k = Some (TObjectId c) \<and> b k = Some (JStr v) \<and> well_formed_id v \<longrightarrow>
                doc_fields d' k = Some (JStr (map to_lower v)))"
    apply (rule exI[of _ "dbs\<lparr>enrollments := c'\<rparr>"], rule exI[of _ d'])
    using e by (simp add: update_enrollment_def u json_def status_json_def doc_or_null_def)
qed

lemma sample_ids:
  "well_formed_id user_id" "well_formed_id course_id" "well_formed_id quiz_id"
  "well_formed_id lesson_id" "well_formed_id submission_id" "well_formed_id enrollment_id"
  "well_formed_id absent_id"
  "map to_lower user_id = user_id" "map to_lower course_id = course_id"
  "map to_lower quiz_id = quiz_id" "map to_lower lesson_id = lesson_id"
  "map to_lower submission_id = submission_id" "map to_lower enrollment_id = enrollment_id"
  "map to_lower absent_id = absent_id"
  by (simp_all add: well_formed_id_def is_hex_def to_lower_def user_id_def course_id_def quiz_id_def
      lesson_id_def submission_id_def enrollment_id_def absent_id_def)

lemma sample_ids_distinct:
  "absent_id \<noteq> quiz_id" "absent_id \<noteq> lesson_id" "absent_id \<noteq> course_id"
  "absent_id \<noteq> submission_id" "absent_id \<noteq> enrollment_id"
  by (simp_all add: course_id_def quiz_id_def lesson_id_def submission_id_def enrollment_id_def
      absent_id_def)

lemma not_an_id: "cast_object_id ''not-an-id'' = CastFails"
  by (simp add: cast_object_id_def well_formed_id_def)

lemma plain_update:
  assumes "\<forall>k \<in> set (path_names sch). cast_path sch b k \<noteq> Some CastFails"
    and "\<forall>k \<in> set (path_names sch). cast_path sch b k \<noteq> Some CastUnmodelled"
    and "\<forall>k \<in> dom b. plain_key k"
  shows "cast_update sch b = Returns (cast_set sch b)"
proof -
  from assms(1) have "filter (\<lambda>k. cast_path sch b k = Some CastFails) (path_names sch) = []"
    by (simp add: filter_empty_conv)
  with assms(2,3) show ?thesis by (auto simp add: cast_update_def)
qed

theorem quiz_update_delete_by_id_witness:
  "delete_quiz db_school absent_id = Returns (db_school, \<lparr>status = 404, body = PMsg ''Quiz not found''\<rparr>)
   \<and> update_quiz db_school absent_id [''answer'' \<mapsto> JStr ''A JavaScript runtime'']
       = Returns (db_school, \<lparr>status = 404, body = PMsg ''Quiz not found''\<rparr>)
   \<and> (\<exists>dbs'. delete_quiz db_school quiz_id
                = Returns (dbs', \<lparr>status = 200, body = PMsg ''Quiz deleted''\<rparr>) \<and>
              quizzes dbs' = [])
   \<and> (\<exists>dbs' q'. update_quiz db_school quiz_id [''answer'' \<mapsto> JStr ''A JavaScript runtime'']
                = Returns (dbs', \<lparr>status = 200, body = PDoc q'\<rparr>) \<and>
          find_by_id (quizzes dbs') quiz_id = Some q' \<and>
          doc_fields q' ''answer'' = Some (JStr ''A JavaScript runtime'') \<and>
          doc_fields q' ''question'' = Some (JStr ''What is Node.js?''))"
proof -
  let ?b = "[''answer'' \<mapsto> JStr ''A JavaScript runtime'']"
  have cu: "cast_update quizSchema ?b = Returns (cast_set quizSchema ?b)"
    by (rule plain_update) (simp_all add: cast_path_def path_type_def path_names_def quizSchema_def
        path_def defined_props_def plain_key_def)
  have ab: "well_formed_id absent_id \<and> map to_lower absent_id \<notin> doc_id ` set (quizzes db_school)"
    using sample_ids_distinct by (simp add: sample_ids db_school_def quiz1_def)
  have pr: "well_formed_id quiz_id \<and> find_by_id (quizzes db_school) (map to_lower quiz_id) = Some quiz1"
    by (simp add: sample_ids db_school_def quiz1_def find_by_id_def)
  note t1 = quiz_update_delete_by_id[where s = absent_id and dbs = db_school and b = ?b
      and u = "cast_set quizSchema ?b", THEN conjunct1, rule_format, OF ab]
  note t2 = quiz_update_delete_by_id[where s = quiz_id and dbs = db_school and b = ?b and q = quiz1
      and u = "cast_set quizSchema ?b", THEN conjunct2, rule_format, OF pr]
  have 1: "delete_quiz db_school absent_id = Returns (db_school, \<lparr>status = 404, body = PMsg ''Quiz not found''\<rparr>)"
    using t1 by simp
  have 2: "update_quiz db_school absent_id ?b = Returns (db_school, \<lparr>status = 404, body = PMsg ''Quiz not found''\<rparr>)"
    using t1 cu by simp
  have 3: "\<exists>dbs'. delete_quiz db_school quiz_id
                = Returns (dbs', \<lparr>status = 200, body = PMsg ''Quiz deleted''\<rparr>) \<and> quizzes dbs' = []"
    using t2[THEN conjunct1] by (simp add: db_school_def)
  from t2[THEN conjunct2, rule_format, OF cu]
  obtain dbs' q' where p: "update_quiz db_school quiz_id ?b = Returns (dbs', \<lparr>status = 200, body = PDoc q'\<rparr>)"
    "find_by_id (quizzes dbs') (map to_lower quiz_id) = Some q'"
    "doc_id q' = doc_id quiz1"
    "\<forall>k. ?b k = None \<longrightarrow> doc_fields q' k = doc_fields quiz1 k"
    "\<forall>k v. path_type quizSchema k = Some TString \<and> ?b k = Some (JStr v) \<longrightarrow>
              doc_fields q' k = Some (JStr v)"
    by (elim exE conjE) (rule that)
  have "?b ''question'' = None" by simp
  with p(4) have a: "doc_fields q' ''question'' = Some (JStr ''What is Node.js?'')"
    by (simp add: quiz1_def)
  have "path_type quizSchema ''answer'' = Some TString"
    by (simp add: path_type_def quizSchema_def path_def)
  with p(5) have b: "doc_fields q' ''answer'' = Some (JStr ''A JavaScript runtime'')"
    by simp
  have 4: "\<exists>dbs' q'. update_quiz db_school quiz_id ?b
                = Returns (dbs', \<lparr>status = 200, body = PDoc q'\<rparr>) \<and>
          find_by_id (quizzes dbs') quiz_id = Some q' \<and>
          doc_fields q' ''answer'' = Some (JStr ''A JavaScript runtime'') \<and>
          doc_fields q' ''question'' = Some (JStr ''What is Node.js?'')"
    using p(1) p(2) a b by (intro exI[of _ dbs'] exI[of _ q'] conjI) (simp_all add: sample_ids)
  from 1 2 3 4 show ?thesis by (intro conjI)
qed

text \<open>
  Claim C3 as stated fails for an id that is not a well-formed ObjectId: no stored quiz
  has the id \<^verbatim>\<open>not-an-id\<close>, the cast of the id throws, and the \<^verbatim>\<open>catch\<close>
  blocks of both handlers answer 500, not 404.
\<close>

theorem quiz_ill_formed_id_counterexample:
  "update_quiz db_school ''not-an-id'' [''answer'' \<mapsto> JStr ''A JavaScript runtime'']
     = Returns (db_school, \<lparr>status = 500, body = PErr ''Server error'' (CastError [''_id''])\<rparr>)
   \<and> delete_quiz db_school ''not-an-id''
     = Returns (db_school, \<lparr>status = 500, body = PErr ''Server error'' (CastError [''_id''])\<rparr>)
   \<and> ''not-an-id'' \<notin> doc_id ` set (quizzes db_school)"
  by (simp add: update_quiz_def delete_quiz_def find_by_id_and_update_def find_by_id_and_delete_def
      not_an_id status_json_def db_school_def quiz1_def quiz_id_def)

theorem update_absent_id_null_success_witness:
  "update_lesson db_school absent_id [''title'' \<mapsto> JStr ''Routing'']
     = Returns (db_school, \<lparr>status = 200, body = PNull\<rparr>)
   \<and> update_course db_school absent_id [''title'' \<mapsto> JStr ''Node'']
     = Returns (db_school, \<lparr>status = 200, body = PNull\<rparr>)
   \<and> update_submission db_school absent_id [''answer'' \<mapsto> JStr ''A database'']
     = Returns (db_school, \<lparr>status = 200, body = PNull\<rparr>)
   \<and> update_enrollment db_school absent_id [''course'' \<mapsto> JStr course_id]
     = Returns (db_school, \<lparr>status = 200, body = PNull\<rparr>)"
proof -
  have w: "well_formed_id absent_id" by (simp add: sample_ids)
  have ab: "map to_lower absent_id \<notin> doc_id ` set (lessons db_school)"
    "map to_lower absent_id \<notin> doc_id ` set (courses db_school)"
    "map to_lower absent_id \<notin> doc_id ` set (submissions db_school)"
    "map to_lower absent_id \<notin> doc_id ` set (enrollments db_school)"
    using sample_ids_distinct
    by (simp_all add: sample_ids db_school_def lesson1_def course3_def submission3_def enrollment1_def)
  have cu: "cast_update lessonSchema [''title'' \<mapsto> JStr ''Routing'']
              = Returns (cast_set lessonSchema [''title'' \<mapsto> JStr ''Routing''])"
    "cast_update courseSchema [''title'' \<mapsto> JStr ''Node'']
              = Returns (cast_set courseSchema [''title'' \<mapsto> JStr ''Node''])"
    "cast_update submissionSchema [''answer'' \<mapsto> JStr ''A database'']
              = Returns (cast_set submissionSchema [''answer'' \<mapsto> JStr ''A database''])"
    "cast_update enrollmentSchema [''course'' \<mapsto> JStr course_id]
              = Returns (cast_set enrollmentSchema [''course'' \<mapsto> JStr course_id])"
    by (rule plain_update,
        simp_all add: cast_path_def path_type_def path_names_def lessonSchema_def courseSchema_def
          submissionSchema_def enrollmentSchema_def path_def defined_props_def plain_key_def
          cast_object_id_def sample_ids)+
  show ?thesis
    using update_absent_id_null_success[where s = absent_id and dbs = db_school
        and b = "[''title'' \<mapsto> JStr ''Routing'']"
        and u = "cast_set lessonSchema [''title'' \<mapsto> JStr ''Routing'']", THEN conjunct1]
      update_absent_id_null_success[where s = absent_id and dbs = db_school
        and b = "[''title'' \<mapsto> JStr ''Node'']"
        and u = "cast_set courseSchema [''title'' \<mapsto> JStr ''Node'']", THEN conjunct2, THEN conjunct1]
      update_absent_id_null_success[where s = absent_id and dbs = db_school
        and b = "[''answer'' \<mapsto> JStr ''A database'']"
        and u = "cast_set submissionSchema [''answer'' \<mapsto> JStr ''A database'']",
        THEN conjunct2, THEN conjunct2, THEN conjunct1]
      update_absent_id_null_success[where s = absent_id and dbs = db_school
        and b = "[''course'' \<mapsto> JStr course_id]"
        and u = "cast_set enrollmentSchema [''course'' \<mapsto> JStr course_id]",
        THEN conjunct2, THEN conjunct2, THEN conjunct2]
      w ab cu
    by simp
qed

text \<open>
  Claim C4 as stated fails for an id that is not a well-formed ObjectId: the cast of the
  id throws, the four handlers have no \<^verbatim>\<open>try\<close>, and no 200 response with a null
  body is sent.
\<close>

theorem update_ill_formed_id_counterexample:
  "update_lesson db_school ''not-an-id'' [''title'' \<mapsto> JStr ''Routing''] = Throws (CastError [''_id''])
   \<and> update_course db_school ''not-an-id'' [''title'' \<mapsto> JStr ''Node''] = Throws (CastError [''_id''])
   \<and> update_submission db_school ''not-an-id'' [''answer'' \<mapsto> JStr ''A database'']
       = Throws (CastError [''_id''])
   \<and> update_enrollment db_school ''not-an-id'' [''course'' \<mapsto> JStr course_id]
       = Throws (CastError [''_id''])
   \<and> ''not-an-id'' \<notin> doc_id ` set (lessons db_school)"
  by (simp add: update_lesson_def update_course_def update_submission_def update_enrollment_def
      find_by_id_and_update_def not_an_id db_school_def lesson1_def lesson_id_def)

text \<open>
  Claim C10 as stated fails for a body with a value that cannot be cast to the type of
  its field: updating a stored quiz with the lesson \<^verbatim>\<open>not-an-id\<close> throws a
  CastError, the response is 500 and not the updated document.
\<close>

theorem update_uncastable_value_counterexample:
  "update_quiz db_school quiz_id [''lesson'' \<mapsto> JStr ''not-an-id'']
     = Returns (db_school, \<lparr>status = 500, body = PErr ''Server error'' (CastError [''lesson''])\<rparr>)
   \<and> find_by_id (quizzes db_school) quiz_id = Some quiz1"
proof -
  have "cast_update quizSchema [''lesson'' \<mapsto> JStr ''not-an-id''] = Throws (CastError [''lesson''])"
    by (simp add: cast_update_def cast_path_def path_type_def path_names_def quizSchema_def path_def
        defined_props_def not_an_id)
  then show ?thesis
    using sample_ids(3)
    by (simp add: update_quiz_def find_by_id_and_update_def cast_object_id_well_formed sample_ids
        status_json_def db_school_def quiz1_def find_by_id_def)
qed

theorem update_by_id_shallow_patch_witness:
  "(\<exists>dbs' d'. update_quiz db_school quiz_id [''answer'' \<mapsto> JStr ''A JavaScript runtime''] = Returns (dbs', \<lparr>status = 200, body = PDoc d'\<rparr>) \<and>
        find_by_id (quizzes dbs') quiz_id = Some d' \<and>
        doc_fields d' ''question'' = Some (JStr ''What is Node.js?'') \<and>
        doc_fields d' ''answer'' = Some (JStr ''A JavaScript runtime''))
   \<and> (\<exists>dbs' d'. update_lesson db_school lesson_id [''content'' \<mapsto> JStr ''Routers and middleware''] = Returns (dbs', \<lparr>status = 200, body = PDoc d'\<rparr>) \<and>
        find_by_id (lessons dbs') lesson_id = Some d' \<and>
        doc_fields d' ''title'' = Some (JStr ''Introduction to Express'') \<and>
        doc_fields d' ''content'' = Some (JStr ''Routers and middleware''))
   \<and> (\<exists>dbs' d'. update_course db_school course_id [''description'' \<mapsto> JStr ''Learn Node.js fundamentals''] = Returns (dbs', \<lparr>status = 200, body = PDoc d'\<rparr>) \<and>
        find_by_id (courses dbs') course_id = Some d' \<and>
        doc_fields d' ''title'' = Some (JStr ''Introduction to Node.js'') \<and>
        doc_fields d' ''description'' = Some (JStr ''Learn Node.js fundamentals''))
   \<and> (\<exists>dbs' d'. update_submission db_school submission_id [''answer'' \<mapsto> JStr ''A JavaScript runtime''] = Returns (dbs', \<lparr>status = 200, body = PDoc d'\<rparr>) \<and>
        find_by_id (submissions dbs') submission_id = Some d' \<and>
        doc_fields d' ''student'' = Some (JStr user_id) \<and>
        doc_fields d' ''answer'' = Some (JStr ''A JavaScript runtime''))
   \<and> (\<exists>dbs' d'. update_enrollment db_school enrollment_id [''course'' \<mapsto> JStr absent_id] = Returns (dbs', \<lparr>status = 200, body = PDoc d'\<rparr>) \<and>
        find_by_id (enrollments dbs') enrollment_id = Some d' \<and>
        doc_fields d' ''student'' = Some (JStr user_id) \<and>
        doc_fields d' ''course'' = Some (JStr absent_id))"
proof -
  have "\<exists>dbs' d'. update_quiz db_school quiz_id [''answer'' \<mapsto> JStr ''A JavaScript runtime''] = Returns (dbs', \<lparr>status = 200, body = PDoc d'\<rparr>) \<and>
        find_by_id (quizzes dbs') quiz_id = Some d' \<and>
        doc_fields d' ''question'' = Some (JStr ''What is Node.js?'') \<and>
        doc_fields d' ''answer'' = Some (JStr ''A JavaScript runtime'')"
  proof -
    let ?b = "[''answer'' \<mapsto> JStr ''A JavaScript runtime'']"
    have cu: "cast_update quizSchema ?b = Returns (cast_set quizSchema ?b)"
      by (rule plain_update) (simp_all add: cast_path_def path_type_def path_names_def quizSchema_def path_def
          defined_props_def plain_key_def cast_object_id_def sample_ids)
    have f: "find_by_id (quizzes db_school) (map to_lower quiz_id) = Some quiz1"
      by (simp add: sample_ids db_school_def quiz1_def find_by_id_def)
    have w: "well_formed_id quiz_id" by (simp add: sample_ids)
    note t = update_by_id_shallow_patch[where dbs = db_school and s = quiz_id and d = quiz1 and b = ?b
        and u = "cast_set quizSchema ?b"]
    from t[THEN conjunct1, rule_format, OF conjI[OF w conjI[OF cu f]]]
    obtain dbs' d' where p: "update_quiz db_school quiz_id ?b = Returns (dbs', \<lparr>status = 200, body = PDoc d'\<rparr>)"
      "find_by_id (quizzes dbs') (map to_lower quiz_id) = Some d'"
      "doc_id d' = doc_id quiz1"
      "\<forall>k. ?b k = None \<longrightarrow> doc_fields d' k = doc_fields quiz1 k"
      "\<forall>k v. path_type quizSchema k = Some TString \<and> ?b k = Some (JStr v) \<longrightarrow>
                doc_fields d' k = Some (JStr v)"
      "\<forall>k c v. path_type quizSchema k = Some (TObjectId c) \<and> ?b k = Some (JStr v) \<and> well_formed_id v \<longrightarrow>
                doc_fields d' k = Some (JStr (map to_lower v))"
      by (elim exE conjE) (rule that)
    have "?b ''question'' = None" by simp
    with p(4) have 1: "doc_fields d' ''question'' = Some (JStr ''What is Node.js?'')"
      by (simp add: quiz1_def)
    have "path_type quizSchema ''answer'' = Some TString"
      by (simp add: path_type_def quizSchema_def path_def)
    with p(5) have 2: "doc_fields d' ''answer'' = Some (JStr ''A JavaScript runtime'')"
      by simp
    from p(1) p(2) 1 2 show ?thesis
      by (intro exI[of _ dbs'] exI[of _ d'] conjI) (simp_all add: sample_ids)
  qed
  moreover
  have "\<exists>dbs' d'. update_lesson db_school lesson_id [''content'' \<mapsto> JStr ''Routers and middleware''] = Returns (dbs', \<lparr>status = 200, body = PDoc d'\<rparr>) \<and>
        find_by_id (lessons dbs') lesson_id = Some d' \<and>
        doc_fields d' ''title'' = Some (JStr ''Introduction to Express'') \<and>
        doc_fields d' ''content'' = Some (JStr ''Routers and middleware'')"
  proof -
    let ?b = "[''content'' \<mapsto> JStr ''Routers and middleware'']"
    have cu: "cast_update lessonSchema ?b = Returns (cast_set lessonSchema ?b)"
      by (rule plain_update) (simp_all add: cast_path_def path_type_def path_names_def lessonSchema_def path_def
          defined_props_def plain_key_def cast_object_id_def sample_ids)
    have f: "find_by_id (lessons db_school) (map to_lower lesson_id) = Some lesson1"
      by (simp add: sample_ids db_school_def lesson1_def find_by_id_def)
    have w: "well_formed_id lesson_id" by (simp add: sample_ids)
    note t = update_by_id_shallow_patch[where dbs = db_school and s = lesson_id and d = lesson1 and b = ?b
        and u = "cast_set lessonSchema ?b"]
    from t[THEN conjunct2, THEN conjunct1, rule_format, OF conjI[OF w conjI[OF cu f]]]
    obtain dbs' d' where p: "update_lesson db_school lesson_id ?b = Returns (dbs', \<lparr>status = 200, body = PDoc d'\<rparr>)"
      "find_by_id (lessons dbs') (map to_lower lesson_id) = Some d'"
      "doc_id d' = doc_id lesson1"
      "\<forall>k. ?b k = None \<longrightarrow> doc_fields d' k = doc_fields lesson1 k"
      "\<forall>k v. path_type lessonSchema k = Some TString \<and> ?b k = Some (JStr v) \<longrightarrow>
                doc_fields d' k = Some (JStr v)"
      "\<forall>k c v. path_type lessonSchema k = Some (TObjectId c) \<and> ?b k = Some (JStr v) \<and> well_formed_id v \<longrightarrow>
                doc_fields d' k = Some (JStr (map to_lower v))"
      by (elim exE conjE) (rule that)
    have "?b ''title'' = None" by simp
    with p(4) have 1: "doc_fields d' ''title'' = Some (JStr ''Introduction to Express'')"
      by (simp add: lesson1_def)
    have "path_type lessonSchema ''content'' = Some TString"
      by (simp add: path_type_def lessonSchema_def path_def)
    with p(5) have 2: "doc_fields d' ''content'' = Some (JStr ''Routers and middleware'')"
      by simp
    from p(1) p(2) 1 2 show ?thesis
      by (intro exI[of _ dbs'] exI[of _ d'] conjI) (simp_all add: sample_ids)
  qed
  moreover
  have "\<exists>dbs' d'. update_course db_school course_id [''description'' \<mapsto> JStr ''Learn Node.js fundamentals''] = Returns (dbs', \<lparr>status = 200, body = PDoc d'\<rparr>) \<and>
        find_by_id (courses dbs') course_id = Some d' \<and>
        doc_fields d' ''title'' = Some (JStr ''Introduction to Node.js'') \<and>
        doc_fields d' ''description'' = Some (JStr ''Learn Node.js fundamentals'')"
  proof -
    let ?b = "[''description'' \<mapsto> JStr ''Learn Node.js fundamentals'']"
    have cu: "cast_update courseSchema ?b = Returns (cast_set courseSchema ?b)"
      by (rule plain_update) (simp_all add: cast_path_def path_type_def path_names_def courseSchema_def path_def
          defined_props_def plain_key_def cast_object_id_def sample_ids)
    have f: "find_by_id (courses db_school) (map to_lower course_id) = Some course3"
      by (simp add: sample_ids db_school_def course3_def find_by_id_def)
    have w: "well_formed_id course_id" by (simp add: sample_ids)
    note t = update_by_id_shallow_patch[where dbs = db_school and s = course_id and d = course3 and b = ?b
        and u = "cast_set courseSchema ?b"]
    from t[THEN conjunct2, THEN conjunct2, THEN conjunct1, rule_format, OF conjI[OF w conjI[OF cu f]]]
    obtain dbs' d' where p: "update_course db_school course_id ?b = Returns (dbs', \<lparr>status = 200, body = PDoc d'\<rparr>)"
      "find_by_id (courses dbs') (map to_lower course_id) = Some d'"
      "doc_id d' = doc_id course3"
      "\<forall>k. ?b k = None \<longrightarrow> doc_fields d' k = doc_fields course3 k"
      "\<forall>k v. path_type courseSchema k = Some TString \<and> ?b k = Some (JStr v) \<longrightarrow>
                doc_fields d' k = Some (JStr v)"
      "\<forall>k c v. path_type courseSchema k = Some (TObjectId c) \<and> ?b k = Some (JStr v) \<and> well_formed_id v \<longrightarrow>
                doc_fields d' k = Some (JStr (map to_lower v))"
      by (elim exE conjE) (rule that)
    have "?b ''title'' = None" by simp
    with p(4) have 1: "doc_fields d' ''title'' = Some (JStr ''Introduction to Node.js'')"
      by (simp add: course3_def)
    have "path_type courseSchema ''description'' = Some TString"
      by (simp add: path_type_def courseSchema_def path_def)
    with p(5) have 2: "doc_fields d' ''description'' = Some (JStr ''Learn Node.js fundamentals'')"
      by simp
    from p(1) p(2) 1 2 show ?thesis
      by (intro exI[of _ dbs'] exI[of _ d'] conjI) (simp_all add: sample_ids)
  qed
  moreover
  have "\<exists>dbs' d'. update_submission db_school submission_id [''answer'' \<mapsto> JStr ''A JavaScript runtime''] = Returns (dbs', \<lparr>status = 200, body = PDoc d'\<rparr>) \<and>
        find_by_id (submissions dbs') submission_id = Some d' \<and>
        doc_fields d' ''student'' = Some (JStr user_id) \<and>
        doc_fields d' ''answer'' = Some (JStr ''A JavaScript runtime'')"
  proof -
    let ?b = "[''answer'' \<mapsto> JStr ''A JavaScript runtime'']"
    have cu: "cast_update submissionSchema ?b = Returns (cast_set submissionSchema ?b)"
      by (rule plain_update) (simp_all add: cast_path_def path_type_def path_names_def submissionSchema_def path_def
          defined_props_def plain_key_def cast_object_id_def sample_ids)
    have f: "find_by_id (submissions db_school) (map to_lower submission_id) = Some submission3"
      by (simp add: sample_ids db_school_def submission3_def find_by_id_def)
    have w: "well_formed_id submission_id" by (simp add: sample_ids)
    note t = update_by_id_shallow_patch[where dbs = db_school and s = submission_id and d = submission3 and b = ?b
        and u = "cast_set submissionSchema ?b"]
    from t[THEN conjunct2, THEN conjunct2, THEN conjunct2, THEN conjunct1, rule_format, OF conjI[OF w conjI[OF cu f]]]
    obtain dbs' d' where p: "update_submission db_school submission_id ?b = Returns (dbs', \<lparr>status = 200, body = PDoc d'\<rparr>)"
      "find_by_id (submissions dbs') (map to_lower submission_id) = Some d'"
      "doc_id d' = doc_id submission3"
      "\<forall>k. ?b k = None \<longrightarrow> doc_fields d' k = doc_fields submission3 k"
      "\<forall>k v. path_type submissionSchema k = Some TString \<and> ?b k = Some (JStr v) \<longrightarrow>
                doc_fields d' k = Some (JStr v)"
      "\<forall>k c v. path_type submissionSchema k = Some (TObjectId c) \<and> ?b k = Some (JStr v) \<and> well_formed_id v \<longrightarrow>
                doc_fields d' k = Some (JStr (map to_lower v))"
      by (elim exE conjE) (rule that)
    have "?b ''student'' = None" by simp
    with p(4) have 1: "doc_fields d' ''student'' = Some (JStr user_id)"
      by (simp add: submission3_def)
    have "path_type submissionSchema ''answer'' = Some TString"
      by (simp add: path_type_def submissionSchema_def path_def)
    with p(5) have 2: "doc_fields d' ''answer'' = Some (JStr ''A JavaScript runtime'')"
      by simp
    from p(1) p(2) 1 2 show ?thesis
      by (intro exI[of _ dbs'] exI[of _ d'] conjI) (simp_all add: sample_ids)
  qed
  moreover
  have "\<exists>dbs' d'. update_enrollment db_school enrollment_id [''course'' \<mapsto> JStr absent_id] = Returns (dbs', \<lparr>status = 200, body = PDoc d'\<rparr>) \<and>
        find_by_id (enrollments dbs') enrollment_id = Some d' \<and>
        doc_fields d' ''student'' = Some (JStr user_id) \<and>
        doc_fields d' ''course'' = Some (JStr absent_id)"
  proof -
    let ?b = "[''course'' \<mapsto> JStr absent_id]"
    have cu: "cast_update enrollmentSchema ?b = Returns (cast_set enrollmentSchema ?b)"
      by (rule plain_update) (simp_all add: cast_path_def path_type_def path_names_def enrollmentSchema_def path_def
          defined_props_def plain_key_def cast_object_id_def sample_ids)
    have f: "find_by_id (enrollments db_school) (map to_lower enrollment_id) = Some enrollment1"
      by (simp add: sample_ids db_school_def enrollment1_def find_by_id_def)
    have w: "well_formed_id enrollment_id" by (simp add: sample_ids)
    note t = update_by_id_shallow_patch[where dbs = db_school and s = enrollment_id and d = enrollment1 and b = ?b
        and u = "cast_set enrollmentSchema ?b"]
    from t[THEN conjunct2, THEN conjunct2, THEN conjunct2, THEN conjunct2, rule_format, OF conjI[OF w conjI[OF cu f]]]
    obtain dbs' d' where p: "update_enrollment db_school enrollment_id ?b = Returns (dbs', \<lparr>status = 200, body = PDoc d'\<rparr>)"
      "find_by_id (enrollments dbs') (map to_lower enrollment_id) = Some d'"
      "doc_id d' = doc_id enrollment1"
      "\<forall>k. ?b k = None \<longrightarrow> doc_fields d' k = doc_fields enrollment1 k"
      "\<forall>k v. path_type enrollmentSchema k = Some TString \<and> ?b k = Some (JStr v) \<longrightarrow>
                doc_fields d' k = Some (JStr v)"
      "\<forall>k c v. path_type enrollmentSchema k = Some (TObjectId c) \<and> ?b k = Some (JStr v) \<and> well_formed_id v \<longrightarrow>
                doc_fields d' k = Some (JStr (map to_lower v))"
      by (elim exE conjE) (rule that)
    have "?b ''student'' = None" by simp
    with p(4) have 1: "doc_fields d' ''student'' = Some (JStr user_id)"
      by (simp add: enrollment1_def)
    have "path_type enrollmentSchema ''course'' = Some (TObjectId Course)"
      by (simp add: path_type_def enrollmentSchema_def path_def)
    with p(6) have 2: "doc_fields d' ''course'' = Some (JStr absent_id)"
      using sample_ids by simp
    from p(1) p(2) 1 2 show ?thesis
      by (intro exI[of _ dbs'] exI[of _ d'] conjI) (simp_all add: sample_ids)
  qed
  ultimately show ?thesis by (intro conjI)
qed

section \<open>Quiz creation\<close>

text \<open>
  Claim C2 asks for status 400 when question, answer or lesson is missing. The handler
  answers every such body with 500: the validation error that \<^verbatim>\<open>save()\<close> throws is
  caught by the only \<^verbatim>\<open>catch\<close> block, and nothing is stored.
\<close>

theorem create_quiz_missing_field_500:
  "b ''question'' = None \<or> b ''answer'' = None \<or> b ''lesson'' = None \<longrightarrow>
   (\<exists>e. create_quiz dbs nid b = (dbs, \<lparr>status = 500, body = PErr ''Server error'' e\<rparr>))"
proof
  assume a: "b ''question'' = None \<or> b ''answer'' = None \<or> b ''lesson'' = None"
  have "doc_fields (new_doc quizSchema nid b) k = None" if "b k = None" "k \<noteq> ''options''" for k
    using that by (auto simp add: new_doc_def defaults_def quizSchema_def path_def default_of_def
        List.map_filter_simps map_add_def restrict_map_def defined_props_def split: option.splits)
  with a have "validate quizSchema (new_doc quizSchema nid b) \<noteq> []"
    by (auto simp add: validate_def quizSchema_def path_def path_ok_def)
  then show "\<exists>e. create_quiz dbs nid b = (dbs, \<lparr>status = 500, body = PErr ''Server error'' e\<rparr>)"
    by (auto simp add: create_quiz_def save_def status_json_def Let_def split: list.splits)
qed

theorem create_quiz_missing_field_500_witness:
  "create_quiz db0 ''q1'' [''question'' \<mapsto> JStr ''What is Node.js?'', ''answer'' \<mapsto> JStr ''A JavaScript runtime'']
     = (db0, \<lparr>status = 500, body = PErr ''Server error'' (ValidationError [''lesson''])\<rparr>)"
  using create_quiz_missing_field_500[of "[''question'' \<mapsto> JStr ''What is Node.js?'', ''answer'' \<mapsto> JStr ''A JavaScript runtime'']" db0 "''q1''"]
  by (simp add: create_quiz_def new_doc_def save_def validate_def quizSchema_def path_def
      path_ok_def defaults_def default_of_def List.map_filter_simps path_names_def
      defined_props_def map_add_def restrict_map_def status_json_def Let_def)

section \<open>Mount paths\<close>

text \<open>
  Claim C7, as amended. Every router, the enrollment router included, is mounted at
  \<^verbatim>\<open>/api/\<close> followed by the name of its module; the enrollment router is mounted
  at \<^verbatim>\<open>/api/enrollments\<close>.
\<close>

theorem mounts_all_under_api:
  "map fst app_routes = map (\<lambda>r. ''/api/'' @ route_module r) (map snd app_routes)
   \<and> map snd app_routes =
       [userRoutes, courseRoutes, lessonRoutes, enrollmentRoutes, quizRoutes, submissionRoutes]
   \<and> mount_paths enrollmentRoutes = [''/api/enrollments'']"
  by (simp add: app_routes_def mount_paths_def)

text \<open>
  Claim C7 as stated fails: the entrypoint does not mount the enrollment router at
  \<^verbatim>\<open>/enrollments\<close>.
\<close>

theorem enrollment_mount_counterexample:
  "mount_paths enrollmentRoutes \<noteq> [''/enrollments'']
   \<and> (''/enrollments'', enrollmentRoutes) \<notin> set app_routes"
  by (simp add: app_routes_def mount_paths_def)

section \<open>List filters\<close>

lemma matches_Nil: "matches [] = (\<lambda>d. True)"
  by (rule ext) (simp add: matches_def)


lemma add_filter_empty: "add_filter k (Some []) q = add_filter k None q"
  by (simp add: add_filter_def)

lemma add_regex_filter_empty: "add_regex_filter k (Some []) q = add_regex_filter k None q"
  by (simp add: add_regex_filter_def)

















text \<open>
  Claim C9. In every list operation a criterion supplied as the empty string gives the
  same response as the criterion omitted; the quiz list with an empty lesson returns
  all quizzes.
\<close>

theorem empty_criterion_as_omitted:
  "list_quizzes dbs (Some []) = list_quizzes dbs None
   \<and> list_quizzes dbs (Some []) = json (PList (map (populate dbs quizSchema ''lesson'') (quizzes dbs)))
   \<and> list_lessons dbs (Some []) = list_lessons dbs None
   \<and> list_submissions dbs (Some []) quiz = list_submissions dbs None quiz
   \<and> list_submissions dbs student (Some []) = list_submissions dbs student None
   \<and> list_enrollments dbs (Some []) course = list_enrollments dbs None course
   \<and> list_enrollments dbs student (Some []) = list_enrollments dbs student None
   \<and> list_courses dbs (Some []) instructor = list_courses dbs None instructor
   \<and> list_courses dbs title (Some []) = list_courses dbs title None"
  unfolding list_quizzes_def list_lessons_def list_submissions_def list_enrollments_def
    list_courses_def add_filter_empty add_regex_filter_empty
  by (simp add: add_filter_def find_docs_def matches_Nil)




end
